theory Spec2Isabelle
  imports Complex_Main "HOL-Library.Multiset" "HOL-Library.AList"
    "HOL-Library.List_Lexorder" "HOL-Library.Char_ord"
begin

section \<open>Data model\<close>

text \<open>
  The report components of the repository are React views written in TypeScript; the
  aggregation and payroll arithmetic lives inside their handlers. This theory embeds
  those handlers as HOL functions.

  Conventions of the embedding:
  \<^item> A JavaScript \<open>number\<close> that carries an amount, a quantity, a price, a percentage or a
    day count is a \<^typ>\<open>rat\<close>: arithmetic is exact. The rounding of IEEE-754 doubles,
    signed zero and the infinities are not part of this model. \<open>NaN\<close> is modelled where
    the code tests for it, namely on the result of \<open>parseFloat\<close>, as \<^term>\<open>None\<close>.
  \<^item> Identifiers, years and months are \<^typ>\<open>int\<close>.
  \<^item> An optional value (\<open>undefined\<close>) is an \<^typ>\<open>'a option\<close>.
  \<^item> A JavaScript \<open>Map\<close> that the code builds is an association list in insertion order:
    \<open>get\<close> is \<^const>\<open>map_of\<close>, and \<open>set\<close> is \<^const>\<open>AList.update\<close>, which replaces the value
    of a present key in place and appends an absent key at the end. The price table
    \<open>taskMap\<close>, which the code only reads, is a map \<open>int \<rightharpoonup> Task\<close>.
  \<^item> \<open>Array.prototype.reduce\<close> is \<^const>\<open>foldl\<close>, \<open>forEach\<close> over a mutated accumulator is
    \<^const>\<open>fold\<close>, \<open>find\<close> is \<^const>\<open>find\<close>, \<open>filter\<close>/\<open>map\<close>/\<open>flatMap\<close> are
    \<^const>\<open>filter\<close>/\<^const>\<open>map\<close>/\<^const>\<open>concat\<close> of \<^const>\<open>map\<close>.
  \<^item> Arrays are taken as their TypeScript types declare them: no \<open>null\<close> entries, so the
    defensive \<open>filter(w => w)\<close> and \<open>Array.isArray\<close> tests of the source are identities.
  \<^item> Strings compare by code unit, as \<open>>=\<close> and \<open><=\<close> on JavaScript strings do.
  \<^item> \<open>xs.sort((a, b) => a.worker.name.localeCompare(b.worker.name))\<close> is the stable
    \<^const>\<open>sort_key\<close> on the name, with the code-unit order standing for the collation of
    \<open>localeCompare\<close>; no property below depends on the order of two different names.
\<close>

datatype period = First | Second

record Worker =
  id_w :: int
  name :: string
  seniorityPercentage :: rat

record WorkerGroup =
  groupName :: string
  owner_g :: "string option"
  workers :: "Worker list"

record Task =
  price :: rat

record DailyLog =
  workerId :: int
  taskId :: int
  quantity :: rat
  date :: string
  owner :: "string option"

record WorkedDays =
  workerId_wd :: int
  year_wd :: int
  month_wd :: int
  period_wd :: period
  days :: rat
  owner_wd :: "string option"

definition LAIT_TASK_ID :: int where
  "LAIT_TASK_ID = 37"

definition PANIER_TASK_ID :: int where
  "PANIER_TASK_ID = 47"

text \<open>The recurring expression \<open>taskMap.get(id)?.price || 0\<close>.\<close>

definition priceOrZero :: "(int \<rightharpoonup> Task) \<Rightarrow> int \<Rightarrow> rat" where
  "priceOrZero taskMap tid = (case taskMap tid of None \<Rightarrow> 0 | Some task \<Rightarrow> price task)"

text \<open>
  \<open>getDaysWorkedForWorker\<close> (FinalReportView, DetailedPayrollView): the first attendance
  entry of the worker for the period, \<open>entry?.days || 0\<close>.
\<close>

definition getDaysWorkedForWorker ::
  "WorkedDays list \<Rightarrow> int \<Rightarrow> int \<Rightarrow> period \<Rightarrow> int \<Rightarrow> rat" where
  "getDaysWorkedForWorker workedDays year month per wid =
     (case find (\<lambda>d. workerId_wd d = wid \<and> year_wd d = year \<and> month_wd d = month
                      \<and> period_wd d = per) workedDays of
        None \<Rightarrow> 0
      | Some entry \<Rightarrow> days entry)"

section \<open>FinalReportView.handleSave: payroll and transfer order of a bi-monthly report\<close>

record TaskSummary =
  quantity_s :: rat
  price_s :: rat

record PayrollTask =
  taskId_pt :: int
  quantity_pt :: rat
  price_pt :: rat
  amount :: rat

record PayrollData =
  worker :: Worker
  tasks :: "PayrollTask list"
  totalOperation :: rat
  anciennete :: rat
  totalBrut :: rat
  retenu :: rat
  joursTravailles :: rat
  jourFerier :: rat

record TransferOrderData =
  worker_to :: Worker
  netPay_to :: rat

text \<open>
  The body of the \<open>forEach\<close> that fills \<open>tasksSummary\<close>: a log whose task is not in the
  price table is skipped (\<open>if (!task) return\<close>).
\<close>

definition addToSummary ::
  "(int \<rightharpoonup> Task) \<Rightarrow> DailyLog \<Rightarrow> (int \<times> TaskSummary) list \<Rightarrow> (int \<times> TaskSummary) list" where
  "addToSummary taskMap lg tasksSummary =
     (case taskMap (taskId lg) of
        None \<Rightarrow> tasksSummary
      | Some task \<Rightarrow>
          (let existing = (case map_of tasksSummary (taskId lg) of
                             None \<Rightarrow> \<lparr>quantity_s = 0, price_s = price task\<rparr>
                           | Some e \<Rightarrow> e)
           in AList.update (taskId lg)
                (existing\<lparr>quantity_s := quantity_s existing + quantity lg\<rparr>) tasksSummary))"

definition payrollLine ::
  "(int \<rightharpoonup> Task) \<Rightarrow> WorkedDays list \<Rightarrow> int \<Rightarrow> int \<Rightarrow> period \<Rightarrow> DailyLog list \<Rightarrow> Worker
     \<Rightarrow> PayrollData" where
  "payrollLine taskMap workedDays year month per logs w =
     (let workerLogs = filter (\<lambda>l. workerId l = id_w w) logs;
          joursTravailles' = getDaysWorkedForWorker workedDays year month per (id_w w);
          tasksSummary =
            fold (addToSummary taskMap)
              (filter (\<lambda>log. taskId log \<noteq> LAIT_TASK_ID \<and> taskId log \<noteq> PANIER_TASK_ID) workerLogs) [];
          workerTasks =
            map (\<lambda>(tid, summary).
                   \<lparr>taskId_pt = tid, quantity_pt = quantity_s summary, price_pt = price_s summary,
                    amount = quantity_s summary * price_s summary\<rparr>) tasksSummary;
          totalOperation' = foldl (\<lambda>sum task. sum + amount task) 0 workerTasks;
          anciennete' = totalOperation' * (seniorityPercentage w / 100);
          jourFerier' = 0;
          totalBrut' = totalOperation' + anciennete' + jourFerier';
          retenu' = totalBrut' * 0.0674
      in \<lparr>worker = w, tasks = sort_key taskId_pt workerTasks, totalOperation = totalOperation',
          anciennete = anciennete', totalBrut = totalBrut', retenu = retenu',
          joursTravailles = joursTravailles', jourFerier = jourFerier'\<rparr>)"

definition payrollData ::
  "(int \<rightharpoonup> Task) \<Rightarrow> WorkedDays list \<Rightarrow> int \<Rightarrow> int \<Rightarrow> period \<Rightarrow> DailyLog list \<Rightarrow> Worker list
     \<Rightarrow> PayrollData list" where
  "payrollData taskMap workedDays year month per logs ws =
     map (payrollLine taskMap workedDays year month per logs) ws"

definition transferOrderLine ::
  "(int \<rightharpoonup> Task) \<Rightarrow> WorkedDays list \<Rightarrow> int \<Rightarrow> int \<Rightarrow> period \<Rightarrow> DailyLog list \<Rightarrow> Worker
     \<Rightarrow> TransferOrderData" where
  "transferOrderLine taskMap workedDays year month per logs w =
     (let joursTravailles' = getDaysWorkedForWorker workedDays year month per (id_w w);
          totalOperation' =
            foldl (\<lambda>sum log. sum + quantity log * priceOrZero taskMap (taskId log)) 0
              (filter (\<lambda>l. workerId l = id_w w \<and> taskId l \<noteq> LAIT_TASK_ID
                            \<and> taskId l \<noteq> PANIER_TASK_ID) logs);
          anciennete' = totalOperation' * (seniorityPercentage w / 100);
          jourFerier' = 0;
          totalBrut' = totalOperation' + anciennete' + jourFerier';
          retenu' = totalBrut' * 0.0674;
          indemniteLait = joursTravailles' * priceOrZero taskMap LAIT_TASK_ID;
          primePanier = joursTravailles' * priceOrZero taskMap PANIER_TASK_ID;
          netPay' = totalBrut' - retenu' + indemniteLait + primePanier
      in \<lparr>worker_to = w, netPay_to = netPay'\<rparr>)"

definition transferOrderData ::
  "(int \<rightharpoonup> Task) \<Rightarrow> WorkedDays list \<Rightarrow> int \<Rightarrow> int \<Rightarrow> period \<Rightarrow> DailyLog list \<Rightarrow> Worker list
     \<Rightarrow> TransferOrderData list" where
  "transferOrderData taskMap workedDays year month per logs ws =
     filter (\<lambda>item. netPay_to item > 0)
       (map (transferOrderLine taskMap workedDays year month per logs) ws)"

section \<open>Period resolution\<close>

text \<open>
  The half-month range of \<open>handleGenerateDraft\<close> and \<open>generateReportData\<close>:
  \<open>new Date(Date.UTC(year, month - 1, day)).toISOString().split('T')[0]\<close>, with
  \<open>new Date(year, month, 0).getDate()\<close> for the last day of the month. The model covers
  what the year and month selectors of the forms supply: a four-digit year and a month
  from 1 to 12.
\<close>

definition digit :: "int \<Rightarrow> char" where
  "digit d = ''0123456789'' ! nat d"

definition pad2 :: "int \<Rightarrow> string" where
  "pad2 n = [digit (n div 10 mod 10), digit (n mod 10)]"

definition year4 :: "int \<Rightarrow> string" where
  "year4 y = [digit (y div 1000 mod 10), digit (y div 100 mod 10), digit (y div 10 mod 10),
              digit (y mod 10)]"

definition isoDate :: "int \<Rightarrow> int \<Rightarrow> int \<Rightarrow> string" where
  "isoDate y m d = year4 y @ ''-'' @ pad2 m @ ''-'' @ pad2 d"

definition isLeapYear :: "int \<Rightarrow> bool" where
  "isLeapYear y = ((y mod 4 = 0 \<and> y mod 100 \<noteq> 0) \<or> y mod 400 = 0)"

definition lastDayOfMonth :: "int \<Rightarrow> int \<Rightarrow> int" where
  "lastDayOfMonth y m =
     (if m = 2 then (if isLeapYear y then 29 else 28)
      else if m = 4 \<or> m = 6 \<or> m = 9 \<or> m = 11 then 30 else 31)"

definition startDateNum :: "period \<Rightarrow> int" where
  "startDateNum per = (if per = First then 1 else 16)"

definition endDateNum :: "int \<Rightarrow> int \<Rightarrow> period \<Rightarrow> int" where
  "endDateNum y m per = (if per = First then 15 else lastDayOfMonth y m)"

definition startDateStr :: "int \<Rightarrow> int \<Rightarrow> period \<Rightarrow> string" where
  "startDateStr y m per = isoDate y m (startDateNum per)"

definition endDateStr :: "int \<Rightarrow> int \<Rightarrow> period \<Rightarrow> string" where
  "endDateStr y m per = isoDate y m (endDateNum y m per)"

section \<open>FinalReportView: the bi-monthly report\<close>

record FinalReportData =
  workers_fr :: "Worker list"
  logs_fr :: "DailyLog list"
  allWorkedDays_fr :: "WorkedDays list"
  startDate_fr :: string
  endDate_fr :: string

text \<open>\<open>allWorkersIncludingDeparted\<close>, also \<open>allWorkers\<close> of the other views.\<close>

definition allWorkers :: "WorkerGroup list \<Rightarrow> Worker list" where
  "allWorkers workerGroups = concat (map workers workerGroups)"

text \<open>
  \<open>handleGenerateDraft\<close>: the logs of the report are the logs of the half-month whose
  worker is one of the workers of the report. \<open>workersForDaysEntry\<close> is the list that
  \<open>handlePrepareDaysEntry\<close> prepared (the selected workers of the roster); the handler
  does nothing without it. Saving the attendance entries is the caller's effect and is not
  part of the draft.
\<close>

definition logsForReport :: "DailyLog list \<Rightarrow> Worker list \<Rightarrow> int \<Rightarrow> int \<Rightarrow> period \<Rightarrow> DailyLog list" where
  "logsForReport allLogs workersForDaysEntry y m per =
     (let workerIdsToReport = map id_w workersForDaysEntry
      in filter (\<lambda>log. date log \<ge> startDateStr y m per \<and> date log \<le> endDateStr y m per
                       \<and> workerId log \<in> set workerIdsToReport) allLogs)"

definition handleGenerateDraft ::
  "DailyLog list \<Rightarrow> WorkedDays list \<Rightarrow> Worker list \<Rightarrow> int \<Rightarrow> int \<Rightarrow> period \<Rightarrow> FinalReportData" where
  "handleGenerateDraft allLogs workedDays workersForDaysEntry y m per =
     \<lparr>workers_fr = workersForDaysEntry,
      logs_fr = logsForReport allLogs workersForDaysEntry y m per,
      allWorkedDays_fr = workedDays,
      startDate_fr = pad2 (startDateNum per) @ ''/'' @ pad2 m @ ''/'' @ year4 y,
      endDate_fr = pad2 (endDateNum y m per) @ ''/'' @ pad2 m @ ''/'' @ year4 y\<rparr>"

text \<open>
  The aggregation of \<open>ReportContent\<close>: per worker and task the summed quantity
  (\<open>dataMap\<close>), per task the summed quantity (\<open>columnTotals\<close>), and the sorted task ids.
  \<open>setOrder\<close> is the iteration order of \<open>new Set(xs)\<close>: first occurrences.
\<close>

definition setOrder :: "'a list \<Rightarrow> 'a list" where
  "setOrder xs = rev (remdups (rev xs))"

definition getOrZero :: "(int \<times> rat) list \<Rightarrow> int \<Rightarrow> rat" where
  "getOrZero m k = (case map_of m k of None \<Rightarrow> 0 | Some v \<Rightarrow> v)"

definition addToDataMap ::
  "DailyLog \<Rightarrow> (int \<times> (int \<times> rat) list) list \<times> (int \<times> rat) list
     \<Rightarrow> (int \<times> (int \<times> rat) list) list \<times> (int \<times> rat) list" where
  "addToDataMap lg acc =
     (let dataMap = fst acc; totals = snd acc;
          workerMap = (case map_of dataMap (workerId lg) of None \<Rightarrow> [] | Some m \<Rightarrow> m)
      in (AList.update (workerId lg)
            (AList.update (taskId lg) (getOrZero workerMap (taskId lg) + quantity lg) workerMap)
            dataMap,
          AList.update (taskId lg) (getOrZero totals (taskId lg) + quantity lg) totals))"

record Aggregation =
  headerTaskIds :: "int list"
  dataMap :: "(int \<times> (int \<times> rat) list) list"
  columnTotals :: "(int \<times> rat) list"

definition aggregation :: "DailyLog list \<Rightarrow> Aggregation" where
  "aggregation logs =
     (if logs = [] then \<lparr>headerTaskIds = [], dataMap = [], columnTotals = []\<rparr>
      else (let uniqueTaskIds = setOrder (map taskId logs);
                acc = fold addToDataMap logs ([], [])
            in \<lparr>headerTaskIds = sort uniqueTaskIds, dataMap = fst acc, columnTotals = snd acc\<rparr>))"

section \<open>Adjustment strings\<close>

text \<open>
  Adjustments are kept as the strings the user typed. \<open>parseFloat\<close> is the language's
  own function and is a parameter \<open>pf\<close> of the model: \<^term>\<open>None\<close> is \<open>NaN\<close>, the result
  for a string that has no numeric prefix.

  \<open>strOr s d\<close> is \<open>s || d\<close> on an optional string (\<open>undefined\<close> and \<open>''\<close> are falsy);
  \<open>numOrZero\<close> is \<open>x || 0\<close> on a number (\<open>NaN\<close> and \<open>0\<close> are falsy).
\<close>

definition strOr :: "string option \<Rightarrow> string \<Rightarrow> string" where
  "strOr s d = (case s of None \<Rightarrow> d | Some v \<Rightarrow> if v = [] then d else v)"

definition numOrZero :: "rat option \<Rightarrow> rat" where
  "numOrZero x = (case x of None \<Rightarrow> 0 | Some v \<Rightarrow> v)"

section \<open>DetailedPayrollView\<close>

definition RET_CNSS_RATE :: rat where
  "RET_CNSS_RATE = 0.0448"

definition RET_AMO_RATE :: rat where
  "RET_AMO_RATE = 0.0226"

record DetailedInputs =
  avanceAid_in :: string
  ir_in :: string

record DetailedPayrollData =
  worker_dp :: Worker
  montant :: rat
  anciennete_dp :: rat
  total :: rat
  indemLait :: rat
  primePanier :: rat
  retCnss :: rat
  retAmo :: rat
  avanceAid :: rat
  ir :: rat
  netAPayer :: rat
  joursTravailles_dp :: rat
  congePaye :: rat
  jourFerier_dp :: rat

record DetailedParams =
  year_dp :: int
  month_dp :: int
  period_dp :: period
  workerIds_dp :: "int list"
  additionalInputs_dp :: "int \<rightharpoonup> DetailedInputs"

record SavedDetailedPayroll =
  params_dp :: DetailedParams
  data_dp :: "DetailedPayrollData list"
  updatedAt_dp :: string

text \<open>
  The live collections a view receives as props: the logs, the attendance entries, the
  worker groups and the price table.
\<close>

record Props =
  allLogs :: "DailyLog list"
  workedDays :: "WorkedDays list"
  workerGroups :: "WorkerGroup list"
  taskMap :: "int \<rightharpoonup> Task"

text \<open>One element of the \<open>map\<close> in \<open>generateReportData\<close>; \<^term>\<open>None\<close> is \<open>null\<close>.\<close>

definition generateReportLine ::
  "(string \<Rightarrow> rat option) \<Rightarrow> Props \<Rightarrow> int \<Rightarrow> int \<Rightarrow> period \<Rightarrow> (int \<rightharpoonup> DetailedInputs) \<Rightarrow> int
     \<Rightarrow> DetailedPayrollData option" where
  "generateReportLine pf props y m per currentInputs wid =
     (case find (\<lambda>w. id_w w = wid) (allWorkers (workerGroups props)) of
        None \<Rightarrow> None
      | Some w \<Rightarrow>
          (let joursTravailles' = getDaysWorkedForWorker (workedDays props) y m per wid;
               workerLogs = filter (\<lambda>log. date log \<ge> startDateStr y m per
                                         \<and> date log \<le> endDateStr y m per
                                         \<and> workerId log = wid) (allLogs props);
               montant' =
                 foldl (\<lambda>sum log. sum + quantity log * priceOrZero (taskMap props) (taskId log)) 0
                   (filter (\<lambda>l. taskId l \<noteq> LAIT_TASK_ID \<and> taskId l \<noteq> PANIER_TASK_ID) workerLogs);
               anciennete' = montant' * (seniorityPercentage w / 100);
               total' = montant' + anciennete';
               indemLait' = joursTravailles' * priceOrZero (taskMap props) LAIT_TASK_ID;
               primePanier' = joursTravailles' * priceOrZero (taskMap props) PANIER_TASK_ID;
               retCnss' = total' * RET_CNSS_RATE;
               retAmo' = total' * RET_AMO_RATE;
               avanceAid' =
                 numOrZero (pf (strOr (map_option avanceAid_in (currentInputs wid)) ''0''));
               ir' = numOrZero (pf (strOr (map_option ir_in (currentInputs wid)) ''0''));
               netAPayer' =
                 total' + indemLait' + primePanier' - retCnss' - retAmo' - avanceAid' - ir'
           in Some \<lparr>worker_dp = w, montant = montant', anciennete_dp = anciennete',
                     total = total', indemLait = indemLait', primePanier = primePanier',
                     retCnss = retCnss', retAmo = retAmo', avanceAid = avanceAid', ir = ir',
                     netAPayer = netAPayer', joursTravailles_dp = joursTravailles',
                     congePaye = 0, jourFerier_dp = 0\<rparr>))"

definition generateReportData ::
  "(string \<Rightarrow> rat option) \<Rightarrow> Props \<Rightarrow> int list \<Rightarrow> int \<Rightarrow> int \<Rightarrow> period
     \<Rightarrow> (int \<rightharpoonup> DetailedInputs) \<Rightarrow> DetailedPayrollData list" where
  "generateReportData pf props workerIds y m per currentInputs =
     List.map_filter (generateReportLine pf props y m per currentInputs) workerIds"

text \<open>
  \<open>handleGenerateDraft\<close> of the detailed payroll: every selected worker starts with
  empty adjustment strings. \<open>now\<close> is the clock reading \<open>new Date().toISOString()\<close>.
\<close>

definition initialInputs :: "int list \<Rightarrow> (int \<rightharpoonup> DetailedInputs)" where
  "initialInputs selectedWorkerIds =
     foldl (\<lambda>acc i. acc(i \<mapsto> \<lparr>avanceAid_in = [], ir_in = []\<rparr>)) Map.empty selectedWorkerIds"

definition detailedGenerateDraft ::
  "(string \<Rightarrow> rat option) \<Rightarrow> Props \<Rightarrow> string \<Rightarrow> int list \<Rightarrow> int \<Rightarrow> int \<Rightarrow> period
     \<Rightarrow> SavedDetailedPayroll" where
  "detailedGenerateDraft pf props now selectedWorkerIds y m per =
     (let data' = generateReportData pf props selectedWorkerIds y m per
                    (initialInputs selectedWorkerIds)
      in \<lparr>params_dp = \<lparr>year_dp = y, month_dp = m, period_dp = per,
                        workerIds_dp = selectedWorkerIds,
                        additionalInputs_dp = initialInputs selectedWorkerIds\<rparr>,
          data_dp = sort_key (\<lambda>d. name (worker_dp d)) data',
          updatedAt_dp = now\<rparr>)"

text \<open>
  \<open>handleSaveAdjustments\<close> of the detailed payroll: the lines are generated again by
  \<open>generateReportData\<close> from the live props, for the parameters stored in the report.
  The result is the report passed to \<open>onSave\<close>; without a report in view nothing is saved.
\<close>

definition detailedSaveAdjustments ::
  "(string \<Rightarrow> rat option) \<Rightarrow> Props \<Rightarrow> string \<Rightarrow> SavedDetailedPayroll option
     \<Rightarrow> (int \<rightharpoonup> DetailedInputs) \<Rightarrow> SavedDetailedPayroll option" where
  "detailedSaveAdjustments pf props now viewingReport draftAdjustments =
     (case viewingReport of
        None \<Rightarrow> None
      | Some report \<Rightarrow>
          (let updatedData =
                 generateReportData pf props (workerIds_dp (params_dp report))
                   (year_dp (params_dp report)) (month_dp (params_dp report))
                   (period_dp (params_dp report)) draftAdjustments
           in Some (report\<lparr>params_dp := (params_dp report)\<lparr>additionalInputs_dp := draftAdjustments\<rparr>,
                            data_dp := sort_key (\<lambda>d. name (worker_dp d)) updatedData,
                            updatedAt_dp := now\<rparr>)))"

section \<open>PayrollView\<close>

record PayrollInputs =
  avance_in :: string
  jourFerier_in :: string

record PayrollParams =
  startDate_p :: string
  endDate_p :: string
  workerIds_p :: "int list"
  additionalInputs_p :: "int \<rightharpoonup> PayrollInputs"

record SavedPayroll =
  params_p :: PayrollParams
  data_p :: "PayrollData list"
  updatedAt_p :: string

text \<open>
  The body of the \<open>map\<close> in \<open>PayrollView.handleSaveAdjustments\<close>. \<open>jourFerier\<close> is the
  parsed holiday pay, possibly \<open>NaN\<close>; \<open>isNaN(jourFerier) ? 0 : jourFerier\<close> is
  \<^const>\<open>numOrZero\<close> of it.
\<close>

definition recalcLine ::
  "(string \<Rightarrow> rat option) \<Rightarrow> (int \<rightharpoonup> PayrollInputs) \<Rightarrow> PayrollData \<Rightarrow> PayrollData" where
  "recalcLine pf draftAdjustments d =
     (let jourFerierValue = map_option jourFerier_in (draftAdjustments (id_w (worker d)));
          jourFerier' = (case jourFerierValue of
                           None \<Rightarrow> Some 0
                         | Some v \<Rightarrow> if v \<noteq> [] then pf v else Some 0);
          totalBrut' = totalOperation d + anciennete d + numOrZero jourFerier';
          retenu' = totalBrut' * 0.0674
      in d\<lparr>jourFerier := numOrZero jourFerier', totalBrut := totalBrut', retenu := retenu'\<rparr>)"

definition payrollSaveAdjustments ::
  "(string \<Rightarrow> rat option) \<Rightarrow> string \<Rightarrow> SavedPayroll option \<Rightarrow> (int \<rightharpoonup> PayrollInputs)
     \<Rightarrow> SavedPayroll option" where
  "payrollSaveAdjustments pf now viewingReport draftAdjustments =
     (case viewingReport of
        None \<Rightarrow> None
      | Some report \<Rightarrow>
          Some (report\<lparr>params_p := (params_p report)\<lparr>additionalInputs_p := draftAdjustments\<rparr>,
                       data_p := map (recalcLine pf draftAdjustments) (data_p report),
                       updatedAt_p := now\<rparr>))"

text \<open>
  The net pay that \<open>PayrollView.ReportContent\<close> shows for a line: the advance comes from
  the stored adjustment strings, the indemnities from the days worked.
\<close>

definition avanceOf :: "(string \<Rightarrow> rat option) \<Rightarrow> PayrollParams \<Rightarrow> PayrollData \<Rightarrow> rat" where
  "avanceOf pf params d =
     numOrZero (pf (strOr (map_option avance_in (additionalInputs_p params (id_w (worker d)))) ''0''))"

definition payrollNetAPayer ::
  "(string \<Rightarrow> rat option) \<Rightarrow> (int \<rightharpoonup> Task) \<Rightarrow> PayrollParams \<Rightarrow> PayrollData \<Rightarrow> rat" where
  "payrollNetAPayer pf tm params d =
     (let laitPricePerDay = priceOrZero tm LAIT_TASK_ID;
          panierPricePerDay = priceOrZero tm PANIER_TASK_ID;
          avance = avanceOf pf params d;
          indemniteLait = joursTravailles d * laitPricePerDay;
          primePanier' = joursTravailles d * panierPricePerDay
      in totalBrut d - retenu d + indemniteLait + primePanier' - avance)"

section \<open>AnnualSummaryView: the rollup over saved bi-monthly reports\<close>

definition HNS_GROUP_NAME :: string where
  "HNS_GROUP_NAME = ''GROUPE HYAT NEGOCE SERVICES''"

record SavedFinalReport =
  id_fr :: string
  data_fr :: FinalReportData

record AnnualSummaryData =
  worker_as :: Worker
  totalOperation_as :: rat
  anciennete_as :: rat
  totalBrut_as :: rat
  retenu_as :: rat
  joursTravailles_as :: rat
  indemnites :: rat
  netPay :: rat
  groupName_as :: string
  isHNS :: bool


definition aggregatedLogs :: "SavedFinalReport list \<Rightarrow> DailyLog list" where
  "aggregatedLogs srcs = concat (map (\<lambda>r. logs_fr (data_fr r)) srcs)"

definition aggregatedWorkedDays :: "SavedFinalReport list \<Rightarrow> WorkedDays list" where
  "aggregatedWorkedDays srcs = concat (map (\<lambda>r. allWorkedDays_fr (data_fr r)) srcs)"


text \<open>One element of the \<open>map\<close> that builds \<open>processedData\<close>; \<^term>\<open>None\<close> is \<open>null\<close>.\<close>

definition annualLine ::
  "(int \<rightharpoonup> Task) \<Rightarrow> WorkerGroup list \<Rightarrow> SavedFinalReport list \<Rightarrow> int \<Rightarrow> AnnualSummaryData option" where
  "annualLine tm groups srcs wid =
     (case find (\<lambda>w. id_w w = wid) (allWorkers groups) of
        None \<Rightarrow> None
      | Some w \<Rightarrow>
          (let hnsWorkerIds =
                 (case find (\<lambda>g. groupName g = HNS_GROUP_NAME) groups of
                    None \<Rightarrow> []
                  | Some hnsGroup \<Rightarrow> map id_w (workers hnsGroup));
               workerLogs = filter (\<lambda>l. workerId l = wid) (aggregatedLogs srcs);
               joursTravailles' =
                 foldl (\<lambda>sum wd. sum + days wd) 0
                   (filter (\<lambda>wd. workerId_wd wd = wid) (aggregatedWorkedDays srcs));
               totalOperation' =
                 foldl (\<lambda>sum log. sum + quantity log * priceOrZero tm (taskId log)) 0
                   (filter (\<lambda>log. taskId log \<noteq> LAIT_TASK_ID \<and> taskId log \<noteq> PANIER_TASK_ID)
                      workerLogs);
               anciennete' = totalOperation' * (seniorityPercentage w / 100);
               totalBrut' = totalOperation' + anciennete';
               retenu' = totalBrut' * 0.0674;
               indemnites' =
                 joursTravailles' * (priceOrZero tm LAIT_TASK_ID + priceOrZero tm PANIER_TASK_ID);
               netPay' = totalBrut' - retenu' + indemnites';
               group = find (\<lambda>g. list_ex (\<lambda>w'. id_w w' = wid) (workers g)) groups;
               isHNS' = (wid \<in> set hnsWorkerIds)
           in Some \<lparr>worker_as = w, totalOperation_as = totalOperation', anciennete_as = anciennete',
                     totalBrut_as = totalBrut', retenu_as = retenu',
                     joursTravailles_as = joursTravailles', indemnites = indemnites',
                     netPay = netPay',
                     groupName_as = strOr (map_option groupName group) ''N/A'',
                     isHNS = isHNS'\<rparr>))"



section \<open>SeasonView: the season aggregation\<close>

text \<open>
  \<open>getCurrentSeason\<close> reads the clock; here the clock's year and zero-based month are
  arguments. A season runs from May 1 to April 30; the year is printed with four digits.
\<close>

record Season =
  startDate_s :: string
  endDate_s :: string
  startYear :: int
  endYear :: int

definition getCurrentSeason :: "int \<Rightarrow> int \<Rightarrow> Season" where
  "getCurrentSeason currentYear currentMonth =
     (let startYear' = (if currentMonth \<ge> 4 then currentYear else currentYear - 1);
          endYear' = (if currentMonth \<ge> 4 then currentYear + 1 else currentYear)
      in \<lparr>startDate_s = year4 startYear' @ ''-05-01'', endDate_s = year4 endYear' @ ''-04-30'',
          startYear = startYear', endYear = endYear'\<rparr>)"

text \<open>
  \<open>workerOwnerMap\<close>: the owner of the group a worker is listed in; a later group
  overwrites an earlier one. A group without owner (or with the empty string, which is
  falsy) contributes nothing.
\<close>

definition workerOwnerMap :: "WorkerGroup list \<Rightarrow> (int \<times> string) list" where
  "workerOwnerMap groups =
     fold (\<lambda>g m. case owner_g g of
                    None \<Rightarrow> m
                  | Some ow \<Rightarrow> if ow = [] then m
                               else fold (\<lambda>w m'. AList.update (id_w w) ow m') (workers g) m)
          groups []"

record SeasonEntry =
  worker_se :: Worker
  tasks_se :: "(int \<times> rat) list"
  workedDays_se :: rat

text \<open>
  \<open>Date.UTC(y, m - 1, 1)\<close> is strictly monotone in \<open>12 * y + (m - 1)\<close>, so the
  comparison of the two dates is the comparison of these month indices.
\<close>

definition monthIndex :: "int \<Rightarrow> int \<Rightarrow> int" where
  "monthIndex y m = 12 * y + (m - 1)"

definition logsForSeason :: "Season \<Rightarrow> DailyLog list \<Rightarrow> DailyLog list" where
  "logsForSeason season logs =
     filter (\<lambda>log. date log \<ge> startDate_s season \<and> date log \<le> endDate_s season) logs"

definition workedDaysForSeason :: "Season \<Rightarrow> WorkedDays list \<Rightarrow> WorkedDays list" where
  "workedDaysForSeason season wds =
     filter (\<lambda>wd. monthIndex (year_wd wd) (month_wd wd) \<ge> monthIndex (startYear season) 5
                 \<and> monthIndex (year_wd wd) (month_wd wd) < monthIndex (endYear season) 5) wds"

definition initialSeasonData :: "WorkerGroup list \<Rightarrow> (int \<times> SeasonEntry) list" where
  "initialSeasonData groups =
     fold (\<lambda>w data. AList.update (id_w w)
                      \<lparr>worker_se = w, tasks_se = [], workedDays_se = 0\<rparr> data)
          (allWorkers groups) []"

text \<open>The bodies of the two \<open>forEach\<close> loops over the logs and the attendance entries.\<close>

definition addSeasonLog ::
  "(int \<times> string) list \<Rightarrow> DailyLog \<Rightarrow> (int \<times> SeasonEntry) list \<Rightarrow> (int \<times> SeasonEntry) list" where
  "addSeasonLog ownerMap lg data =
     (let workerOwnerId = map_of ownerMap (workerId lg)
      in case map_of data (workerId lg) of
           None \<Rightarrow> data
         | Some workerData \<Rightarrow>
             if owner lg = workerOwnerId then
               (let currentQty = getOrZero (tasks_se workerData) (taskId lg)
                in AList.update (workerId lg)
                     (workerData\<lparr>tasks_se :=
                        AList.update (taskId lg) (currentQty + quantity lg) (tasks_se workerData)\<rparr>)
                     data)
             else data)"

definition addSeasonDays ::
  "(int \<times> string) list \<Rightarrow> WorkedDays \<Rightarrow> (int \<times> SeasonEntry) list \<Rightarrow> (int \<times> SeasonEntry) list" where
  "addSeasonDays ownerMap wd data =
     (let workerOwnerId = map_of ownerMap (workerId_wd wd)
      in case map_of data (workerId_wd wd) of
           None \<Rightarrow> data
         | Some workerData \<Rightarrow>
             if owner_wd wd = workerOwnerId then
               AList.update (workerId_wd wd)
                 (workerData\<lparr>workedDays_se := workedDays_se workerData + days wd\<rparr>) data
             else data)"

definition seasonData ::
  "Season \<Rightarrow> WorkerGroup list \<Rightarrow> DailyLog list \<Rightarrow> WorkedDays list \<Rightarrow> (int \<times> SeasonEntry) list" where
  "seasonData season groups logs wds =
     fold (addSeasonDays (workerOwnerMap groups)) (workedDaysForSeason season wds)
       (fold (addSeasonLog (workerOwnerMap groups)) (logsForSeason season logs)
          (initialSeasonData groups))"

text \<open>
  \<open>summaryData\<close>: the workers with some task or some day in the season, sorted by name.
\<close>

definition summaryData ::
  "Season \<Rightarrow> WorkerGroup list \<Rightarrow> DailyLog list \<Rightarrow> WorkedDays list \<Rightarrow> SeasonEntry list" where
  "summaryData season groups logs wds =
     sort_key (\<lambda>d. name (worker_se d))
       (filter (\<lambda>d. tasks_se d \<noteq> [] \<or> workedDays_se d > 0)
          (map snd (seasonData season groups logs wds)))"

section \<open>Scenario data\<close>

text \<open>
  The scenario of the specification: worker W with seniority 10 per cent, 100 units of a
  task priced 5.00, ten days worked, milk priced 8 and meal basket priced 12.
\<close>

definition scenarioWorker :: Worker where
  "scenarioWorker = \<lparr>id_w = 1, name = ''W'', seniorityPercentage = 10\<rparr>"

definition scenarioTaskMap :: "int \<rightharpoonup> Task" where
  "scenarioTaskMap = [1 \<mapsto> \<lparr>price = 5\<rparr>, 37 \<mapsto> \<lparr>price = 8\<rparr>, 47 \<mapsto> \<lparr>price = 12\<rparr>]"

definition scenarioLogs :: "DailyLog list" where
  "scenarioLogs =
     [\<lparr>workerId = 1, taskId = 1, quantity = 100, date = ''2025-06-03'', owner = Some ''u1''\<rparr>]"

definition scenarioWorkedDays :: "WorkedDays list" where
  "scenarioWorkedDays =
     [\<lparr>workerId_wd = 1, year_wd = 2025, month_wd = 6, period_wd = First, days = 10,
       owner_wd = Some ''u1''\<rparr>]"

section \<open>The operational total of the specification\<close>

text \<open>
  This definition follows the specification's words, not the code: the operational total
  of a worker is the sum over the non-indemnity logs of the worker of
  \<open>quantity \<times> price(taskId)\<close>, where a task missing from the price table has price 0.
  The code paths are compared with it below.
\<close>

definition operationalTotal :: "(int \<rightharpoonup> Task) \<Rightarrow> int \<Rightarrow> DailyLog list \<Rightarrow> rat" where
  "operationalTotal tm wid logs =
     sum_list (map (\<lambda>l. quantity l * priceOrZero tm (taskId l))
       (filter (\<lambda>l. workerId l = wid \<and> taskId l \<noteq> LAIT_TASK_ID \<and> taskId l \<noteq> PANIER_TASK_ID) logs))"

section \<open>Auxiliary notions for the proofs\<close>

text \<open>
  The amount of an entry of \<open>tasksSummary\<close>, and the invariant of the loop that fills
  it: every entry carries the price of its task.
\<close>

definition amt :: "int \<times> TaskSummary \<Rightarrow> rat" where
  "amt e = quantity_s (snd e) * price_s (snd e)"

definition priced :: "(int \<rightharpoonup> Task) \<Rightarrow> (int \<times> TaskSummary) list \<Rightarrow> bool" where
  "priced tm S = (\<forall>e \<in> set S. price_s (snd e) = priceOrZero tm (fst e))"

text \<open>The logs of a half-month, as \<open>generateReportData\<close> selects them by date.\<close>

definition logsInPeriod :: "DailyLog list \<Rightarrow> int \<Rightarrow> int \<Rightarrow> period \<Rightarrow> DailyLog list" where
  "logsInPeriod logs y m per =
     filter (\<lambda>l. date l \<ge> startDateStr y m per \<and> date l \<le> endDateStr y m per) logs"

text \<open>
  An adjustment value that stands for no amount: missing (\<open>undefined\<close>), the empty string,
  or a string that \<open>parseFloat\<close> maps to \<open>NaN\<close>.
\<close>

definition noAmount :: "(string \<Rightarrow> rat option) \<Rightarrow> string option \<Rightarrow> bool" where
  "noAmount pf s = (case s of None \<Rightarrow> True | Some v \<Rightarrow> v = [] \<or> pf v = None)"

definition isAmount :: "(string \<Rightarrow> rat option) \<Rightarrow> string option \<Rightarrow> rat \<Rightarrow> bool" where
  "isAmount pf s x = (case s of None \<Rightarrow> False | Some v \<Rightarrow> v \<noteq> [] \<and> pf v = Some x)"

text \<open>
  The fields of a detailed payroll line that come from the aggregation: the worker, the
  operational total, the seniority bonus and the days worked.
\<close>

definition aggregateOf :: "DetailedPayrollData \<Rightarrow> Worker \<times> rat \<times> rat \<times> rat" where
  "aggregateOf d = (worker_dp d, montant d, anciennete_dp d, joursTravailles_dp d)"

text \<open>
  The accumulation step that the aggregation loops share:
  \<open>tasks.set(taskId, (tasks.get(taskId) || 0) + quantity)\<close>.
\<close>

definition addQuantity :: "DailyLog \<Rightarrow> (int \<times> rat) list \<Rightarrow> (int \<times> rat) list" where
  "addQuantity lg m = AList.update (taskId lg) (getOrZero m (taskId lg) + quantity lg) m"

text \<open>
  What a season entry says about a worker: the worker, the quantity per task as a lookup,
  and the days worked. The insertion order of the \<open>tasks\<close> map is not part of it.
\<close>

definition seasonView :: "SeasonEntry \<Rightarrow> Worker \<times> (int \<rightharpoonup> rat) \<times> rat" where
  "seasonView d = (worker_se d, map_of (tasks_se d), workedDays_se d)"

text \<open>The logs and the attendance entries that count for a worker in the season view.\<close>

definition ownLogs :: "(int \<times> string) list \<Rightarrow> int \<Rightarrow> DailyLog list \<Rightarrow> DailyLog list" where
  "ownLogs ownerMap wid logs =
     filter (\<lambda>l. workerId l = wid \<and> owner l = map_of ownerMap wid) logs"

definition ownDays :: "(int \<times> string) list \<Rightarrow> int \<Rightarrow> WorkedDays list \<Rightarrow> WorkedDays list" where
  "ownDays ownerMap wid wds =
     filter (\<lambda>d. workerId_wd d = wid \<and> owner_wd d = map_of ownerMap wid) wds"

text \<open>
  The key of an attendance entry. The data model keeps at most one entry per worker, year,
  month and half-month: a later write for the same key updates the entry in place.
\<close>

definition attendanceKey :: "WorkedDays \<Rightarrow> int \<times> int \<times> int \<times> period" where
  "attendanceKey d = (workerId_wd d, year_wd d, month_wd d, period_wd d)"

section \<open>A decimal parser for the examples\<close>

text \<open>
  The examples instantiate \<open>pf\<close> with \<open>parseDecimal\<close>, which reads what \<open>parseFloat\<close> reads
  from a decimal literal: leading white space, an optional sign, digits with an optional
  fraction, an optional exponent; what follows is ignored, and a string without such a
  prefix gives \<open>NaN\<close>. The value is the exact rational. The literal \<open>Infinity\<close> is outside
  the number model and does not occur in the examples.
\<close>

definition isSpace :: "char \<Rightarrow> bool" where
  "isSpace c = (c \<in> set [CHR 0x20, CHR 0x09, CHR 0x0A, CHR 0x0B, CHR 0x0C, CHR 0x0D])"

definition isDigit :: "char \<Rightarrow> bool" where
  "isDigit c = (CHR ''0'' \<le> c \<and> c \<le> CHR ''9'')"

definition digitsValue :: "string \<Rightarrow> nat" where
  "digitsValue ds = foldl (\<lambda>n c. 10 * n + (of_char c - 48)) 0 ds"

definition scale10 :: "rat \<Rightarrow> bool \<Rightarrow> nat \<Rightarrow> rat" where
  "scale10 x neg e = (if neg then x / 10 ^ e else x * 10 ^ e)"

definition parseDecimal :: "string \<Rightarrow> rat option" where
  "parseDecimal s =
     (let s1 = dropWhile isSpace s;
          neg = (s1 \<noteq> [] \<and> hd s1 = CHR ''-'');
          s2 = (if s1 \<noteq> [] \<and> (hd s1 = CHR ''-'' \<or> hd s1 = CHR ''+'') then tl s1 else s1);
          ip = takeWhile isDigit s2;
          s3 = dropWhile isDigit s2;
          hasDot = (s3 \<noteq> [] \<and> hd s3 = CHR ''.'');
          fp = (if hasDot then takeWhile isDigit (tl s3) else []);
          s4 = (if hasDot then dropWhile isDigit (tl s3) else s3);
          hasE = (s4 \<noteq> [] \<and> (hd s4 = CHR ''e'' \<or> hd s4 = CHR ''E''));
          s5 = (if hasE then tl s4 else []);
          eneg = (s5 \<noteq> [] \<and> hd s5 = CHR ''-'');
          s6 = (if s5 \<noteq> [] \<and> (hd s5 = CHR ''-'' \<or> hd s5 = CHR ''+'') then tl s5 else s5);
          ep = takeWhile isDigit s6;
          mantissa = of_nat (digitsValue ip) + of_nat (digitsValue fp) / 10 ^ length fp;
          v = scale10 mantissa eneg (digitsValue ep)
      in if ip = [] \<and> fp = [] then None else Some (if neg then - v else v))"

section \<open>Example data\<close>

definition scenarioGroups :: "WorkerGroup list" where
  "scenarioGroups = [\<lparr>groupName = ''G1'', owner_g = Some ''u1'', workers = [scenarioWorker]\<rparr>]"

definition scenarioProps :: Props where
  "scenarioProps = \<lparr>allLogs = scenarioLogs, workedDays = scenarioWorkedDays,
                     workerGroups = scenarioGroups, taskMap = scenarioTaskMap\<rparr>"

definition scenarioDetailedLine :: DetailedPayrollData where
  "scenarioDetailedLine =
     \<lparr>worker_dp = scenarioWorker, montant = 500, anciennete_dp = 50, total = 550,
      indemLait = 80, primePanier = 120, retCnss = 24.64, retAmo = 12.43, avanceAid = 0,
      ir = 0, netAPayer = 712.93, joursTravailles_dp = 10, congePaye = 0, jourFerier_dp = 0\<rparr>"

text \<open>
  A worker with seniority 25 per cent and three half-months of activity: 100 and 60 units
  of a task priced 5 in the two halves of June 2025 (operational totals 500 and 300) and
  40 units in July. Each saved report is what \<open>handleGenerateDraft\<close> produced when the
  attendance of its half-month had just been recorded; the attendance collection stored
  in a report holds the entries of the earlier half-months as well.
\<close>

definition rollupWorker :: Worker where
  "rollupWorker = \<lparr>id_w = 4, name = ''R'', seniorityPercentage = 25\<rparr>"

definition rollupGroups :: "WorkerGroup list" where
  "rollupGroups = [\<lparr>groupName = ''G1'', owner_g = Some ''u1'', workers = [rollupWorker]\<rparr>]"

definition rollupLogs :: "DailyLog list" where
  "rollupLogs =
     [\<lparr>workerId = 4, taskId = 1, quantity = 100, date = ''2025-06-03'', owner = Some ''u1''\<rparr>,
      \<lparr>workerId = 4, taskId = 1, quantity = 60, date = ''2025-06-20'', owner = Some ''u1''\<rparr>,
      \<lparr>workerId = 4, taskId = 1, quantity = 40, date = ''2025-07-02'', owner = Some ''u1''\<rparr>]"

definition rollupDays1 :: "WorkedDays list" where
  "rollupDays1 =
     [\<lparr>workerId_wd = 4, year_wd = 2025, month_wd = 6, period_wd = First, days = 10,
       owner_wd = Some ''u1''\<rparr>]"

definition rollupDays2 :: "WorkedDays list" where
  "rollupDays2 =
     rollupDays1 @
     [\<lparr>workerId_wd = 4, year_wd = 2025, month_wd = 6, period_wd = Second, days = 8,
       owner_wd = Some ''u1''\<rparr>]"

definition rollupDays3 :: "WorkedDays list" where
  "rollupDays3 =
     rollupDays2 @
     [\<lparr>workerId_wd = 4, year_wd = 2025, month_wd = 7, period_wd = First, days = 5,
       owner_wd = Some ''u1''\<rparr>]"

definition rollupReport1 :: SavedFinalReport where
  "rollupReport1 =
     \<lparr>id_fr = ''r1'',
      data_fr = handleGenerateDraft rollupLogs rollupDays1 [rollupWorker] 2025 6 First\<rparr>"

definition rollupReport2 :: SavedFinalReport where
  "rollupReport2 =
     \<lparr>id_fr = ''r2'',
      data_fr = handleGenerateDraft rollupLogs rollupDays2 [rollupWorker] 2025 6 Second\<rparr>"

definition rollupReport3 :: SavedFinalReport where
  "rollupReport3 =
     \<lparr>id_fr = ''r3'',
      data_fr = handleGenerateDraft rollupLogs rollupDays3 [rollupWorker] 2025 7 First\<rparr>"

definition rollupLine :: AnnualSummaryData where
  "rollupLine =
     \<lparr>worker_as = rollupWorker, totalOperation_as = 800, anciennete_as = 200,
      totalBrut_as = 1000, retenu_as = 67.4, joursTravailles_as = 28, indemnites = 560,
      netPay = 1492.6, groupName_as = ''G1'', isHNS = False\<rparr>"

text \<open>
  Out-of-range inputs: a negative quantity, a negative seniority percentage, a negative
  milk price, a negative advance, and a log of a task (99) that the price table lacks.
\<close>

definition negativeWorker :: Worker where
  "negativeWorker = \<lparr>id_w = 2, name = ''N'', seniorityPercentage = - 10\<rparr>"

definition negativeProps :: Props where
  "negativeProps =
     \<lparr>allLogs = [\<lparr>workerId = 2, taskId = 1, quantity = - 100, date = ''2025-06-03'', owner = None\<rparr>,
                 \<lparr>workerId = 2, taskId = 99, quantity = 7, date = ''2025-06-04'', owner = None\<rparr>],
      workedDays = [\<lparr>workerId_wd = 2, year_wd = 2025, month_wd = 6, period_wd = First,
                     days = 10, owner_wd = None\<rparr>],
      workerGroups = [\<lparr>groupName = ''G2'', owner_g = None, workers = [negativeWorker]\<rparr>],
      taskMap = [1 \<mapsto> \<lparr>price = 5\<rparr>, 37 \<mapsto> \<lparr>price = - 8\<rparr>]\<rparr>"

definition negativeLine :: DetailedPayrollData where
  "negativeLine =
     \<lparr>worker_dp = negativeWorker, montant = - 500, anciennete_dp = 50, total = - 450,
      indemLait = - 80, primePanier = 0, retCnss = - 20.16, retAmo = - 10.17, avanceAid = - 20,
      ir = 0, netAPayer = - 479.67, joursTravailles_dp = 10, congePaye = 0, jourFerier_dp = 0\<rparr>"

definition indemnityProps :: Props where
  "indemnityProps =
     \<lparr>allLogs = [\<lparr>workerId = 1, taskId = 37, quantity = 4, date = ''2025-06-03'', owner = Some ''u1''\<rparr>,
                 \<lparr>workerId = 1, taskId = 47, quantity = 6, date = ''2025-06-04'', owner = Some ''u1''\<rparr>],
      workedDays = scenarioWorkedDays, workerGroups = scenarioGroups, taskMap = scenarioTaskMap\<rparr>"

definition indemnityInputs :: "int \<rightharpoonup> DetailedInputs" where
  "indemnityInputs = [1 \<mapsto> \<lparr>avanceAid_in = ''30'', ir_in = ''5''\<rparr>]"

definition indemnityLine :: DetailedPayrollData where
  "indemnityLine =
     \<lparr>worker_dp = scenarioWorker, montant = 0, anciennete_dp = 0, total = 0,
      indemLait = 80, primePanier = 120, retCnss = 0, retAmo = 0, avanceAid = 30,
      ir = 5, netAPayer = 165, joursTravailles_dp = 10, congePaye = 0, jourFerier_dp = 0\<rparr>"







definition scenarioPayrollLine :: PayrollData where
  "scenarioPayrollLine =
     \<lparr>worker = scenarioWorker,
      tasks = [\<lparr>taskId_pt = 1, quantity_pt = 100, price_pt = 5, amount = 500\<rparr>],
      totalOperation = 500, anciennete = 50, totalBrut = 550, retenu = 37.07,
      joursTravailles = 10, jourFerier = 0\<rparr>"

definition badInputs :: "int \<rightharpoonup> DetailedInputs" where
  "badInputs = [1 \<mapsto> \<lparr>avanceAid_in = ''abc'', ir_in = ''''\<rparr>]"

definition badAdjustments :: "int \<rightharpoonup> PayrollInputs" where
  "badAdjustments = [1 \<mapsto> \<lparr>avance_in = '''', jourFerier_in = ''n/a''\<rparr>]"

definition goodAdjustments :: "int \<rightharpoonup> PayrollInputs" where
  "goodAdjustments = [1 \<mapsto> \<lparr>avance_in = ''40'', jourFerier_in = ''25.5''\<rparr>]"

definition laterProps :: Props where
  "laterProps =
     scenarioProps\<lparr>allLogs :=
       \<lparr>workerId = 1, taskId = 1, quantity = 10, date = ''2025-06-10'', owner = Some ''u1''\<rparr>
         # scenarioLogs\<rparr>"

text \<open>
  A log of worker 1 that carries the tag of another owner (\<open>u2\<close>) than the owner of the
  worker's group (\<open>u1\<close>): activity recorded before the worker changed groups.
\<close>

definition foreignLog :: DailyLog where
  "foreignLog = \<lparr>workerId = 1, taskId = 1, quantity = 40, date = ''2025-06-05'', owner = Some ''u2''\<rparr>"

text \<open>Three logs of worker 1 and two attendance entries, to be supplied in two orders.\<close>

definition orderLogA :: DailyLog where
  "orderLogA = \<lparr>workerId = 1, taskId = 1, quantity = 0.5, date = ''2025-06-03'', owner = Some ''u1''\<rparr>"

definition orderLogB :: DailyLog where
  "orderLogB = \<lparr>workerId = 1, taskId = 2, quantity = 2, date = ''2025-06-04'', owner = Some ''u1''\<rparr>"

definition orderLogC :: DailyLog where
  "orderLogC = \<lparr>workerId = 1, taskId = 1, quantity = 0.25, date = ''2025-06-05'', owner = Some ''u1''\<rparr>"

definition orderDaysA :: WorkedDays where
  "orderDaysA = \<lparr>workerId_wd = 1, year_wd = 2025, month_wd = 6, period_wd = First, days = 10,
                  owner_wd = Some ''u1''\<rparr>"

definition orderDaysB :: WorkedDays where
  "orderDaysB = \<lparr>workerId_wd = 1, year_wd = 2025, month_wd = 6, period_wd = Second, days = 8,
                  owner_wd = Some ''u1''\<rparr>"

section \<open>Properties of the payroll pipeline\<close>

lemma recalcLine_formulas:
  "totalBrut (recalcLine pf adj d) = totalOperation (recalcLine pf adj d) + anciennete (recalcLine pf adj d) + jourFerier (recalcLine pf adj d)"
  "retenu (recalcLine pf adj d) = totalBrut (recalcLine pf adj d) * 0.0674"
  "anciennete (recalcLine pf adj d) = anciennete d"
  "totalOperation (recalcLine pf adj d) = totalOperation d"
  "worker (recalcLine pf adj d) = worker d"
  by (simp_all add: recalcLine_def Let_def)

lemma payrollLine_formulas:
  "anciennete (payrollLine tm wds y m p logs w) = totalOperation (payrollLine tm wds y m p logs w) * seniorityPercentage w / 100"
  "totalBrut (payrollLine tm wds y m p logs w) = totalOperation (payrollLine tm wds y m p logs w) + anciennete (payrollLine tm wds y m p logs w) + jourFerier (payrollLine tm wds y m p logs w)"
  "retenu (payrollLine tm wds y m p logs w) = totalBrut (payrollLine tm wds y m p logs w) * 0.0674"
  "worker (payrollLine tm wds y m p logs w) = w"
  by (simp_all add: payrollLine_def Let_def)

lemma foldl_plus_sum_list:
  "foldl (\<lambda>sum x. sum + f x) a xs = a + sum_list (map f xs)" for a :: rat
  by (induction xs arbitrary: a) (simp_all add: add.assoc)

lemma sum_amt_update:
  "sum_list (map amt (AList.update k v S)) =
     sum_list (map amt S) - (case map_of S k of None \<Rightarrow> 0 | Some e \<Rightarrow> amt (k, e)) + amt (k, v)"
  by (induction S) (auto simp: amt_def)

lemma set_update_subset: "set (AList.update k v S) \<subseteq> insert (k, v) (set S)"
  by (induction S) auto

lemma priced_update:
  assumes "priced tm S" and "price_s v = priceOrZero tm k"
  shows "priced tm (AList.update k v S)"
  using assms set_update_subset[of k v S] by (auto simp: priced_def)

lemma addToSummary_priced:
  assumes "priced tm S"
  shows "priced tm (addToSummary tm l S)"
proof (cases "tm (taskId l)")
  case None
  then show ?thesis using assms by (simp add: addToSummary_def)
next
  case (Some task)
  show ?thesis
  proof (cases "map_of S (taskId l)")
    case None
    with Some show ?thesis
      by (simp add: addToSummary_def priced_update[OF assms] priceOrZero_def)
  next
    case (Some e)
    then have "(taskId l, e) \<in> set S" by (rule map_of_SomeD)
    with assms have "price_s e = priceOrZero tm (taskId l)" by (auto simp: priced_def)
    with Some \<open>tm (taskId l) = Some task\<close> show ?thesis
      by (simp add: addToSummary_def priced_update[OF assms])
  qed
qed

lemma addToSummary_sum:
  assumes "priced tm S"
  shows "sum_list (map amt (addToSummary tm l S)) =
           sum_list (map amt S) + quantity l * priceOrZero tm (taskId l)"
proof (cases "tm (taskId l)")
  case None
  then show ?thesis by (simp add: addToSummary_def priceOrZero_def)
next
  case (Some task)
  show ?thesis
  proof (cases "map_of S (taskId l)")
    case None
    with Some show ?thesis
      by (simp add: addToSummary_def sum_amt_update amt_def priceOrZero_def)
  next
    case (Some e)
    then have "(taskId l, e) \<in> set S" by (rule map_of_SomeD)
    with assms have "price_s e = priceOrZero tm (taskId l)" by (auto simp: priced_def)
    with Some \<open>tm (taskId l) = Some task\<close> show ?thesis
      by (simp add: addToSummary_def sum_amt_update amt_def distrib_right)
  qed
qed

lemma fold_addToSummary_sum:
  "priced tm S \<Longrightarrow>
     sum_list (map amt (fold (addToSummary tm) ls S)) =
       sum_list (map amt S) + sum_list (map (\<lambda>l. quantity l * priceOrZero tm (taskId l)) ls)"
proof (induction ls arbitrary: S)
  case Nil
  then show ?case by simp
next
  case (Cons l ls)
  from Cons.prems have "priced tm (addToSummary tm l S)" by (rule addToSummary_priced)
  from Cons.IH[OF this] addToSummary_sum[OF Cons.prems, of l]
  show ?case by (simp add: add.assoc)
qed

lemma payrollLine_totalOperation:
  "totalOperation (payrollLine tm wds y m p logs w) = operationalTotal tm (id_w w) logs"
proof -
  let ?ls = "filter (\<lambda>log. taskId log \<noteq> LAIT_TASK_ID \<and> taskId log \<noteq> PANIER_TASK_ID)
               (filter (\<lambda>l. workerId l = id_w w) logs)"
  have "priced tm []" by (simp add: priced_def)
  then have "sum_list (map amt (fold (addToSummary tm) ?ls [])) =
               sum_list (map (\<lambda>l. quantity l * priceOrZero tm (taskId l)) ?ls)"
    by (simp add: fold_addToSummary_sum)
  moreover have "totalOperation (payrollLine tm wds y m p logs w) =
      sum_list (map amt (fold (addToSummary tm) ?ls []))"
  proof -
    have "amt = (\<lambda>x. quantity_s (snd x) * price_s (snd x))"
      by (rule ext) (simp add: amt_def)
    then show ?thesis
      by (simp add: payrollLine_def Let_def foldl_plus_sum_list comp_def case_prod_unfold)
  qed
  moreover have "?ls = filter (\<lambda>l. workerId l = id_w w \<and> taskId l \<noteq> LAIT_TASK_ID \<and> taskId l \<noteq> PANIER_TASK_ID) logs"
    by (simp add: conj_commute)
  ultimately show ?thesis by (simp only: operationalTotal_def)
qed

lemmas parse_defs = parseDecimal_def isDigit_def isSpace_def digitsValue_def scale10_def
lemmas date_defs = startDateStr_def endDateStr_def isoDate_def year4_def pad2_def digit_def
  startDateNum_def endDateNum_def lastDayOfMonth_def isLeapYear_def
lemmas scenario_defs = scenarioProps_def scenarioGroups_def scenarioLogs_def scenarioWorkedDays_def
  scenarioTaskMap_def scenarioWorker_def

lemma period_filter_fuse:
  "filter (\<lambda>l. taskId l \<noteq> LAIT_TASK_ID \<and> taskId l \<noteq> PANIER_TASK_ID)
     (filter (\<lambda>l. date l \<ge> s \<and> date l \<le> e \<and> workerId l = wid) logs) =
   filter (\<lambda>l. workerId l = wid \<and> taskId l \<noteq> LAIT_TASK_ID \<and> taskId l \<noteq> PANIER_TASK_ID)
     (filter (\<lambda>l. date l \<ge> s \<and> date l \<le> e) logs)"
  by (induction logs) auto

lemma generateReportLine_SomeE:
  assumes "generateReportLine pf props y m per inputs wid = Some d"
  obtains w where "find (\<lambda>w. id_w w = wid) (allWorkers (workerGroups props)) = Some w"
    and "worker_dp d = w"
    and "montant d = operationalTotal (taskMap props) wid (logsInPeriod (allLogs props) y m per)"
    and "anciennete_dp d = montant d * (seniorityPercentage w / 100)"
    and "total d = montant d + anciennete_dp d"
    and "indemLait d = joursTravailles_dp d * priceOrZero (taskMap props) LAIT_TASK_ID"
    and "primePanier d = joursTravailles_dp d * priceOrZero (taskMap props) PANIER_TASK_ID"
    and "retCnss d = total d * RET_CNSS_RATE"
    and "retAmo d = total d * RET_AMO_RATE"
    and "avanceAid d = numOrZero (pf (strOr (map_option avanceAid_in (inputs wid)) ''0''))"
    and "ir d = numOrZero (pf (strOr (map_option ir_in (inputs wid)) ''0''))"
    and "netAPayer d = total d + indemLait d + primePanier d - retCnss d - retAmo d - avanceAid d - ir d"
    and "joursTravailles_dp d = getDaysWorkedForWorker (workedDays props) y m per wid"
    and "congePaye d = 0" and "jourFerier_dp d = 0"
proof (cases "find (\<lambda>w. id_w w = wid) (allWorkers (workerGroups props))")
  case None
  with assms show ?thesis by (simp add: generateReportLine_def)
next
  case (Some w)
  with assms have d: "d = the (generateReportLine pf props y m per inputs wid)" by simp
  show ?thesis
    by (rule that[of w])
      (simp_all add: Some d generateReportLine_def Let_def foldl_plus_sum_list
        operationalTotal_def logsInPeriod_def period_filter_fuse)
qed

lemma generateReportLine_Some_iff:
  "(\<exists>d. generateReportLine pf props y m per inputs wid = Some d) \<longleftrightarrow>
   (\<exists>w. find (\<lambda>w. id_w w = wid) (allWorkers (workerGroups props)) = Some w)"
  by (auto simp: generateReportLine_def Let_def split: option.splits)

lemma annualLine_SomeE:
  assumes "annualLine tm groups srcs wid = Some a"
  obtains w where "find (\<lambda>w. id_w w = wid) (allWorkers groups) = Some w"
    and "worker_as a = w"
    and "totalOperation_as a = operationalTotal tm wid (aggregatedLogs srcs)"
    and "anciennete_as a = totalOperation_as a * (seniorityPercentage w / 100)"
    and "totalBrut_as a = totalOperation_as a + anciennete_as a"
    and "retenu_as a = totalBrut_as a * 0.0674"
    and "joursTravailles_as a =
           sum_list (map days (filter (\<lambda>wd. workerId_wd wd = wid) (aggregatedWorkedDays srcs)))"
    and "indemnites a =
           joursTravailles_as a * (priceOrZero tm LAIT_TASK_ID + priceOrZero tm PANIER_TASK_ID)"
    and "netPay a = totalBrut_as a - retenu_as a + indemnites a"
proof (cases "find (\<lambda>w. id_w w = wid) (allWorkers groups)")
  case None
  with assms show ?thesis by (simp add: annualLine_def)
next
  case (Some w)
  with assms have a: "a = the (annualLine tm groups srcs wid)" by simp
  have fuse: "filter (\<lambda>log. taskId log \<noteq> LAIT_TASK_ID \<and> taskId log \<noteq> PANIER_TASK_ID)
                (filter (\<lambda>l. workerId l = wid) ls) =
              filter (\<lambda>l. workerId l = wid \<and> taskId l \<noteq> LAIT_TASK_ID \<and> taskId l \<noteq> PANIER_TASK_ID) ls"
    for ls by (simp add: conj_commute)
  show ?thesis
    by (rule that[of w])
      (simp_all add: Some a annualLine_def Let_def foldl_plus_sum_list operationalTotal_def fuse
        del: times_divide_eq_right times_divide_eq_left divide_divide_eq_left)
qed

lemma generateReportLine_SomeD:
  assumes "generateReportLine pf props y m per inputs wid = Some d"
  shows "find (\<lambda>w. id_w w = wid) (allWorkers (workerGroups props)) = Some (worker_dp d)"
    and "montant d = operationalTotal (taskMap props) wid (logsInPeriod (allLogs props) y m per)"
    and "anciennete_dp d = montant d * (seniorityPercentage (worker_dp d) / 100)"
    and "total d = montant d + anciennete_dp d"
    and "indemLait d = joursTravailles_dp d * priceOrZero (taskMap props) LAIT_TASK_ID"
    and "primePanier d = joursTravailles_dp d * priceOrZero (taskMap props) PANIER_TASK_ID"
    and "retCnss d = total d * RET_CNSS_RATE"
    and "retAmo d = total d * RET_AMO_RATE"
    and "avanceAid d = numOrZero (pf (strOr (map_option avanceAid_in (inputs wid)) ''0''))"
    and "ir d = numOrZero (pf (strOr (map_option ir_in (inputs wid)) ''0''))"
    and "netAPayer d = total d + indemLait d + primePanier d - retCnss d - retAmo d - avanceAid d - ir d"
    and "joursTravailles_dp d = getDaysWorkedForWorker (workedDays props) y m per wid"
    and "congePaye d = 0" and "jourFerier_dp d = 0"
  using assms by (auto elim!: generateReportLine_SomeE)

lemma annualLine_SomeD:
  assumes "annualLine tm groups srcs wid = Some a"
  shows "find (\<lambda>w. id_w w = wid) (allWorkers groups) = Some (worker_as a)"
    and "totalOperation_as a = operationalTotal tm wid (aggregatedLogs srcs)"
    and "anciennete_as a = totalOperation_as a * (seniorityPercentage (worker_as a) / 100)"
    and "totalBrut_as a = totalOperation_as a + anciennete_as a"
    and "retenu_as a = totalBrut_as a * 0.0674"
    and "joursTravailles_as a =
           sum_list (map days (filter (\<lambda>wd. workerId_wd wd = wid) (aggregatedWorkedDays srcs)))"
    and "indemnites a =
           joursTravailles_as a * (priceOrZero tm LAIT_TASK_ID + priceOrZero tm PANIER_TASK_ID)"
    and "netPay a = totalBrut_as a - retenu_as a + indemnites a"
  using assms by (auto elim!: annualLine_SomeE)

lemma transferOrderLine_netPay:
  "netPay_to (transferOrderLine tm wds y m p logs w) =
     (let t = operationalTotal tm (id_w w) logs;
          tb = t + t * (seniorityPercentage w / 100);
          j = getDaysWorkedForWorker wds y m p (id_w w)
      in tb - tb * 0.0674 + j * priceOrZero tm LAIT_TASK_ID + j * priceOrZero tm PANIER_TASK_ID)"
  by (simp add: transferOrderLine_def Let_def foldl_plus_sum_list operationalTotal_def)



text \<open>
  Claim C1. Every line of the payroll data that \<open>handleSave\<close> derives, and every such line
  after the adjustment recomputation of the payroll view, satisfies
  \<open>anciennete = totalOperation \<times> seniorityPercentage / 100\<close>,
  \<open>totalBrut = totalOperation + anciennete + jourFerier\<close> and
  \<open>retenu = totalBrut \<times> 0.0674\<close>. The \<open>totalOperation\<close> of a payroll line is the operational
  total of the specification, and the net pay of the transfer order is the payroll line's
  \<open>totalBrut - retenu\<close> plus the two indemnities. The lines of the detailed payroll and of
  the annual rollup obey the same formulas for the seniority bonus and the gross total
  (their holiday pay is 0), and the annual rollup the same combined withholding. In the
  scenario (seniority 10 per cent,
  100 units of a task priced 5.00, ten days worked, milk 8, meal basket 12, no advance) the
  payroll line has \<open>totalOperation = 500\<close>, \<open>anciennete = 50\<close>, \<open>totalBrut = 550\<close>,
  \<open>retenu = 37.07\<close>, and the transfer order has \<open>netPay = 712.93\<close>.
\<close>

theorem C1_pipeline_formulas:
  "(\<forall>line \<in> set (payrollData tm wds y m p logs ws)
              \<union> set (map (recalcLine pf adj) (payrollData tm wds y m p logs ws)).
      anciennete line = totalOperation line * seniorityPercentage (worker line) / 100 \<and>
      totalBrut line = totalOperation line + anciennete line + jourFerier line \<and>
      retenu line = totalBrut line * 0.0674)
   \<and> totalOperation (payrollLine tm wds y m p logs w) = operationalTotal tm (id_w w) logs
   \<and> netPay_to (transferOrderLine tm wds y m p logs w) =
       totalBrut (payrollLine tm wds y m p logs w) - retenu (payrollLine tm wds y m p logs w)
         + joursTravailles (payrollLine tm wds y m p logs w) * priceOrZero tm LAIT_TASK_ID
         + joursTravailles (payrollLine tm wds y m p logs w) * priceOrZero tm PANIER_TASK_ID
   \<and> (generateReportLine pf' props y' m' p' inputs wid = Some d \<longrightarrow>
        anciennete_dp d = montant d * seniorityPercentage (worker_dp d) / 100
      \<and> total d = montant d + anciennete_dp d + jourFerier_dp d)
   \<and> (annualLine tm' groups srcs wid' = Some a \<longrightarrow>
        anciennete_as a = totalOperation_as a * seniorityPercentage (worker_as a) / 100
      \<and> totalBrut_as a = totalOperation_as a + anciennete_as a
      \<and> retenu_as a = totalBrut_as a * 0.0674)
   \<and> payrollData scenarioTaskMap scenarioWorkedDays 2025 6 First scenarioLogs [scenarioWorker] =
       [\<lparr>worker = scenarioWorker,
         tasks = [\<lparr>taskId_pt = 1, quantity_pt = 100, price_pt = 5, amount = 500\<rparr>],
         totalOperation = 500, anciennete = 50, totalBrut = 550, retenu = 37.07,
         joursTravailles = 10, jourFerier = 0\<rparr>]
   \<and> transferOrderData scenarioTaskMap scenarioWorkedDays 2025 6 First scenarioLogs [scenarioWorker] =
       [\<lparr>worker_to = scenarioWorker, netPay_to = 712.93\<rparr>]"
proof -
  have detailed: "anciennete_dp d = montant d * seniorityPercentage (worker_dp d) / 100
      \<and> total d = montant d + anciennete_dp d + jourFerier_dp d"
    if g: "generateReportLine pf' props y' m' p' inputs wid = Some d"
    using generateReportLine_SomeD(3,4,14)[OF g] by simp
  have annual: "anciennete_as a = totalOperation_as a * seniorityPercentage (worker_as a) / 100
      \<and> totalBrut_as a = totalOperation_as a + anciennete_as a
      \<and> retenu_as a = totalBrut_as a * 0.0674"
    if g: "annualLine tm' groups srcs wid' = Some a"
    using annualLine_SomeD(3,4,5)[OF g] by simp
  have general: "anciennete line = totalOperation line * seniorityPercentage (worker line) / 100 \<and>
      totalBrut line = totalOperation line + anciennete line + jourFerier line \<and>
      retenu line = totalBrut line * 0.0674"
    if "line \<in> set (payrollData tm wds y m p logs ws)
              \<union> set (map (recalcLine pf adj) (payrollData tm wds y m p logs ws))" for line
  proof -
    from that consider w where "line = payrollLine tm wds y m p logs w"
      | w where "line = recalcLine pf adj (payrollLine tm wds y m p logs w)"
      by (auto simp: payrollData_def)
    then show ?thesis
    proof cases
      case 1
      then show ?thesis by (simp only: payrollLine_formulas simp_thms)
    next
      case 2
      then show ?thesis by (simp only: recalcLine_formulas payrollLine_formulas simp_thms)
    qed
  qed
  have net: "netPay_to (transferOrderLine tm wds y m p logs w) =
       totalBrut (payrollLine tm wds y m p logs w) - retenu (payrollLine tm wds y m p logs w)
         + joursTravailles (payrollLine tm wds y m p logs w) * priceOrZero tm LAIT_TASK_ID
         + joursTravailles (payrollLine tm wds y m p logs w) * priceOrZero tm PANIER_TASK_ID"
  proof -
    have j: "joursTravailles (payrollLine tm wds y m p logs w) =
             getDaysWorkedForWorker wds y m p (id_w w)"
      and f: "jourFerier (payrollLine tm wds y m p logs w) = 0"
      by (simp_all add: payrollLine_def Let_def)
    show ?thesis
      unfolding transferOrderLine_netPay payrollLine_formulas(3) payrollLine_formulas(2)
        payrollLine_formulas(1) payrollLine_totalOperation j f
      by (simp add: Let_def field_simps)
  qed
  have payroll: "payrollData scenarioTaskMap scenarioWorkedDays 2025 6 First scenarioLogs [scenarioWorker] =
       [\<lparr>worker = scenarioWorker,
         tasks = [\<lparr>taskId_pt = 1, quantity_pt = 100, price_pt = 5, amount = 500\<rparr>],
         totalOperation = 500, anciennete = 50, totalBrut = 550, retenu = 37.07,
         joursTravailles = 10, jourFerier = 0\<rparr>]"
    by (simp add: payrollData_def payrollLine_def scenarioTaskMap_def scenarioWorkedDays_def
        scenarioLogs_def scenarioWorker_def addToSummary_def getDaysWorkedForWorker_def
        LAIT_TASK_ID_def PANIER_TASK_ID_def)
  have transfer: "transferOrderData scenarioTaskMap scenarioWorkedDays 2025 6 First scenarioLogs [scenarioWorker] =
       [\<lparr>worker_to = scenarioWorker, netPay_to = 712.93\<rparr>]"
    by (simp add: transferOrderData_def transferOrderLine_def scenarioTaskMap_def
        scenarioWorkedDays_def scenarioLogs_def scenarioWorker_def priceOrZero_def
        getDaysWorkedForWorker_def LAIT_TASK_ID_def PANIER_TASK_ID_def)
  from general payrollLine_totalOperation[of tm wds y m p logs w] net detailed annual
    payroll transfer
  show ?thesis by blast
qed

theorem C1_pipeline_formulas_witness:
  "payrollLine scenarioTaskMap scenarioWorkedDays 2025 6 First scenarioLogs scenarioWorker
     \<in> set (payrollData scenarioTaskMap scenarioWorkedDays 2025 6 First scenarioLogs [scenarioWorker])
   \<and> anciennete (payrollLine scenarioTaskMap scenarioWorkedDays 2025 6 First scenarioLogs scenarioWorker)
       = totalOperation (payrollLine scenarioTaskMap scenarioWorkedDays 2025 6 First scenarioLogs scenarioWorker) * 10 / 100
   \<and> totalOperation (payrollLine scenarioTaskMap scenarioWorkedDays 2025 6 First scenarioLogs scenarioWorker) = 500"
  using C1_pipeline_formulas [of scenarioTaskMap scenarioWorkedDays 2025 6 First scenarioLogs "[scenarioWorker]"]
  by (simp add: payrollData_def scenarioWorker_def)

text \<open>
  Claim C4. For every line of the detailed payroll, \<open>retCnss\<close> is \<open>total \<times> 0.0448\<close>,
  \<open>retAmo\<close> is \<open>total \<times> 0.0226\<close>, and their sum is \<open>total \<times> 0.0674\<close>: the withholding
  \<open>retenu\<close> that the combined policy of the payroll (at generation and at adjustment
  recomputation) computes from the same \<open>totalBrut\<close>. Arithmetic is exact here.
\<close>

theorem C4_split_agrees_with_combined:
  assumes "generateReportLine pf props y m per inputs wid = Some d"
  shows "retCnss d = total d * 0.0448 \<and> retAmo d = total d * 0.0226
       \<and> retCnss d + retAmo d = total d * 0.0674
       \<and> (totalBrut (payrollLine tm wds y' m' per' logs w) = total d \<longrightarrow>
            retenu (payrollLine tm wds y' m' per' logs w) = retCnss d + retAmo d)
       \<and> (totalBrut (recalcLine pf' adj line) = total d \<longrightarrow>
            retenu (recalcLine pf' adj line) = retCnss d + retAmo d)"
proof -
  from assms have c: "retCnss d = total d * 0.0448" and a: "retAmo d = total d * 0.0226"
    by (auto elim!: generateReportLine_SomeE simp: RET_CNSS_RATE_def RET_AMO_RATE_def)
  have s: "retCnss d + retAmo d = total d * 0.0674"
    unfolding c a by (simp add: algebra_simps)
  have p: "retenu (payrollLine tm wds y' m' per' logs w) = totalBrut (payrollLine tm wds y' m' per' logs w) * 0.0674"
    by (simp add: payrollLine_def Let_def)
  have r: "retenu (recalcLine pf' adj line) = totalBrut (recalcLine pf' adj line) * 0.0674"
    by (simp add: recalcLine_def Let_def)
  from c a s p r show ?thesis by simp
qed

lemma scenario_detailed:
  "generateReportLine parseDecimal scenarioProps 2025 6 First Map.empty 1 = Some scenarioDetailedLine"
  by (simp add: generateReportLine_def scenario_defs allWorkers_def getDaysWorkedForWorker_def
      date_defs LAIT_TASK_ID_def PANIER_TASK_ID_def priceOrZero_def RET_CNSS_RATE_def
      RET_AMO_RATE_def numOrZero_def strOr_def parse_defs scenarioDetailedLine_def)

theorem C4_split_agrees_with_combined_witness:
  "generateReportLine parseDecimal scenarioProps 2025 6 First Map.empty 1 = Some scenarioDetailedLine
   \<and> totalBrut (payrollLine scenarioTaskMap scenarioWorkedDays 2025 6 First scenarioLogs scenarioWorker)
       = total scenarioDetailedLine
   \<and> retCnss scenarioDetailedLine + retAmo scenarioDetailedLine = 37.07
   \<and> retenu (payrollLine scenarioTaskMap scenarioWorkedDays 2025 6 First scenarioLogs scenarioWorker)
       = retCnss scenarioDetailedLine + retAmo scenarioDetailedLine"
proof -
  have tb: "totalBrut (payrollLine scenarioTaskMap scenarioWorkedDays 2025 6 First scenarioLogs scenarioWorker)
       = total scenarioDetailedLine"
    by (simp add: payrollLine_def scenario_defs addToSummary_def getDaysWorkedForWorker_def
        LAIT_TASK_ID_def PANIER_TASK_ID_def scenarioDetailedLine_def)
  from C4_split_agrees_with_combined[OF scenario_detailed,
      of scenarioTaskMap scenarioWorkedDays 2025 6 First scenarioLogs scenarioWorker] tb
  show ?thesis
    by (simp add: scenario_detailed) (simp add: scenarioDetailedLine_def)
qed






lemmas rollup_defs = rollupReport1_def rollupReport2_def rollupReport3_def rollupLine_def
  rollupWorker_def rollupGroups_def rollupLogs_def rollupDays1_def rollupDays2_def rollupDays3_def




text \<open>
  Claim C9. A task id absent from the price table has price 0, and a log of such a task
  adds nothing to the operational total. For every worker of the roster the detailed
  payroll line and the annual line exist whatever the quantities, prices, percentages and
  adjustment amounts are (no sign is assumed anywhere), and their fields are the plain
  arithmetic of the pipeline on those inputs.
\<close>

theorem C9_pipeline_total:
  "(tm tid = None \<longrightarrow> priceOrZero tm tid = 0)
   \<and> (find (\<lambda>w. id_w w = wid) (allWorkers (workerGroups props)) = Some w \<longrightarrow>
        (\<exists>d. generateReportLine pf props y m per inputs wid = Some d
           \<and> montant d = operationalTotal (taskMap props) wid (logsInPeriod (allLogs props) y m per)
           \<and> anciennete_dp d = montant d * seniorityPercentage w / 100
           \<and> total d = montant d + anciennete_dp d
           \<and> retCnss d = total d * 0.0448 \<and> retAmo d = total d * 0.0226
           \<and> netAPayer d = total d + indemLait d + primePanier d - retCnss d - retAmo d
                              - avanceAid d - ir d))
   \<and> (find (\<lambda>w. id_w w = wid) (allWorkers groups) = Some w \<longrightarrow>
        (\<exists>a. annualLine tm groups srcs wid = Some a
           \<and> totalOperation_as a = operationalTotal tm wid (aggregatedLogs srcs)
           \<and> anciennete_as a = totalOperation_as a * seniorityPercentage w / 100
           \<and> totalBrut_as a = totalOperation_as a + anciennete_as a
           \<and> retenu_as a = totalBrut_as a * 0.0674
           \<and> netPay a = totalBrut_as a - retenu_as a + indemnites a))
   \<and> (tm (taskId l) = None \<longrightarrow>
        operationalTotal tm wid (l # logs) = operationalTotal tm wid logs)"
proof (intro conjI impI)
  show "priceOrZero tm tid = 0" if "tm tid = None"
    using that by (simp add: priceOrZero_def)
next
  assume w: "find (\<lambda>w. id_w w = wid) (allWorkers (workerGroups props)) = Some w"
  then obtain d where d: "generateReportLine pf props y m per inputs wid = Some d"
    using generateReportLine_Some_iff[of pf props y m per inputs wid] by blast
  from d w show "\<exists>d. generateReportLine pf props y m per inputs wid = Some d
           \<and> montant d = operationalTotal (taskMap props) wid (logsInPeriod (allLogs props) y m per)
           \<and> anciennete_dp d = montant d * seniorityPercentage w / 100
           \<and> total d = montant d + anciennete_dp d
           \<and> retCnss d = total d * 0.0448 \<and> retAmo d = total d * 0.0226
           \<and> netAPayer d = total d + indemLait d + primePanier d - retCnss d - retAmo d
                              - avanceAid d - ir d"
    by (intro exI[of _ d]) (auto elim!: generateReportLine_SomeE simp: RET_CNSS_RATE_def RET_AMO_RATE_def)
next
  assume w: "find (\<lambda>w. id_w w = wid) (allWorkers groups) = Some w"
  then obtain a where a: "annualLine tm groups srcs wid = Some a"
    by (auto simp: annualLine_def Let_def)
  from a w show "\<exists>a. annualLine tm groups srcs wid = Some a
           \<and> totalOperation_as a = operationalTotal tm wid (aggregatedLogs srcs)
           \<and> anciennete_as a = totalOperation_as a * seniorityPercentage w / 100
           \<and> totalBrut_as a = totalOperation_as a + anciennete_as a
           \<and> retenu_as a = totalBrut_as a * 0.0674
           \<and> netPay a = totalBrut_as a - retenu_as a + indemnites a"
    by (intro exI[of _ a]) (auto elim!: annualLine_SomeE)
next
  show "operationalTotal tm wid (l # logs) = operationalTotal tm wid logs" if "tm (taskId l) = None"
    using that by (simp add: operationalTotal_def priceOrZero_def)
qed

lemma negative_detailed:
  "generateReportLine parseDecimal negativeProps 2025 6 First
     [2 \<mapsto> \<lparr>avanceAid_in = ''-20'', ir_in = ''''\<rparr>] 2 = Some negativeLine"
  by (simp add: generateReportLine_def negativeProps_def negativeWorker_def allWorkers_def
      getDaysWorkedForWorker_def date_defs LAIT_TASK_ID_def PANIER_TASK_ID_def priceOrZero_def
      RET_CNSS_RATE_def RET_AMO_RATE_def numOrZero_def strOr_def parse_defs negativeLine_def)

theorem C9_pipeline_total_witness:
  "taskMap negativeProps 99 = None \<and> priceOrZero (taskMap negativeProps) 99 = 0
   \<and> find (\<lambda>w. id_w w = 2) (allWorkers (workerGroups negativeProps)) = Some negativeWorker
   \<and> generateReportLine parseDecimal negativeProps 2025 6 First
        [2 \<mapsto> \<lparr>avanceAid_in = ''-20'', ir_in = ''''\<rparr>] 2 = Some negativeLine
   \<and> montant negativeLine = - 500 \<and> netAPayer negativeLine = - 479.67"
proof -
  have n: "taskMap negativeProps 99 = None" by (simp add: negativeProps_def)
  have f: "find (\<lambda>w. id_w w = 2) (allWorkers (workerGroups negativeProps)) = Some negativeWorker"
    by (simp add: negativeProps_def allWorkers_def negativeWorker_def)
  from C9_pipeline_total[of "taskMap negativeProps" 99 2 negativeProps negativeWorker parseDecimal 2025 6 First
      "[2 \<mapsto> \<lparr>avanceAid_in = ''-20'', ir_in = ''''\<rparr>]"] n f
  have "priceOrZero (taskMap negativeProps) 99 = 0" by blast
  with n f negative_detailed show ?thesis by (simp add: negativeLine_def)
qed

lemma operationalTotal_indemnity_only:
  assumes "\<forall>l \<in> set logs. taskId l = LAIT_TASK_ID \<or> taskId l = PANIER_TASK_ID"
  shows "operationalTotal tm wid logs = 0"
proof -
  from assms have "filter (\<lambda>l. workerId l = wid \<and> taskId l \<noteq> LAIT_TASK_ID \<and> taskId l \<noteq> PANIER_TASK_ID) logs = []"
    by (auto simp: filter_empty_conv)
  then show ?thesis by (simp add: operationalTotal_def)
qed

lemma operationalTotal_drop_indemnity:
  "operationalTotal tm wid (filter (\<lambda>l. taskId l \<noteq> LAIT_TASK_ID \<and> taskId l \<noteq> PANIER_TASK_ID) logs)
     = operationalTotal tm wid logs"
proof -
  have "filter (\<lambda>l. workerId l = wid \<and> taskId l \<noteq> LAIT_TASK_ID \<and> taskId l \<noteq> PANIER_TASK_ID)
          (filter (\<lambda>l. taskId l \<noteq> LAIT_TASK_ID \<and> taskId l \<noteq> PANIER_TASK_ID) logs)
        = filter (\<lambda>l. workerId l = wid \<and> taskId l \<noteq> LAIT_TASK_ID \<and> taskId l \<noteq> PANIER_TASK_ID) logs"
    by (induction logs) auto
  then show ?thesis by (simp add: operationalTotal_def)
qed

text \<open>
  Claim C6, as amended. Logs of the milk task (37) and of the meal-basket task (47) never
  contribute to the operational total: it is the total over the other logs. The
  indemnities are days worked times unit price. When the logs hold only those two task
  ids, the operational total, the gross total and the withholdings are 0, and the net pay
  is \<open>daysWorked \<times> (laitPrice + panierPrice)\<close> in the annual rollup and
  \<open>daysWorked \<times> (laitPrice + panierPrice) - advance - IR\<close> in the detailed payroll.
\<close>

theorem C6_indemnity_exclusion:
  "(generateReportLine pf props y m per inputs wid = Some d \<longrightarrow>
       montant d = operationalTotal (taskMap props) wid
                     (filter (\<lambda>l. taskId l \<noteq> LAIT_TASK_ID \<and> taskId l \<noteq> PANIER_TASK_ID)
                        (logsInPeriod (allLogs props) y m per))
     \<and> indemLait d = joursTravailles_dp d * priceOrZero (taskMap props) LAIT_TASK_ID
     \<and> primePanier d = joursTravailles_dp d * priceOrZero (taskMap props) PANIER_TASK_ID
     \<and> ((\<forall>l \<in> set (allLogs props). taskId l = LAIT_TASK_ID \<or> taskId l = PANIER_TASK_ID) \<longrightarrow>
          montant d = 0 \<and> total d = 0 \<and> retCnss d = 0 \<and> retAmo d = 0
        \<and> netAPayer d =
            joursTravailles_dp d * (priceOrZero (taskMap props) LAIT_TASK_ID
                                    + priceOrZero (taskMap props) PANIER_TASK_ID)
            - avanceAid d - ir d))
   \<and> (annualLine tm groups srcs wid = Some a \<longrightarrow>
       totalOperation_as a = operationalTotal tm wid
                     (filter (\<lambda>l. taskId l \<noteq> LAIT_TASK_ID \<and> taskId l \<noteq> PANIER_TASK_ID)
                        (aggregatedLogs srcs))
     \<and> indemnites a =
          joursTravailles_as a * (priceOrZero tm LAIT_TASK_ID + priceOrZero tm PANIER_TASK_ID)
     \<and> ((\<forall>l \<in> set (aggregatedLogs srcs). taskId l = LAIT_TASK_ID \<or> taskId l = PANIER_TASK_ID) \<longrightarrow>
          totalOperation_as a = 0 \<and> totalBrut_as a = 0 \<and> retenu_as a = 0
        \<and> netPay a =
            joursTravailles_as a * (priceOrZero tm LAIT_TASK_ID + priceOrZero tm PANIER_TASK_ID)))"
proof -
  have detailed: "montant d = operationalTotal (taskMap props) wid
                     (filter (\<lambda>l. taskId l \<noteq> LAIT_TASK_ID \<and> taskId l \<noteq> PANIER_TASK_ID)
                        (logsInPeriod (allLogs props) y m per))
     \<and> indemLait d = joursTravailles_dp d * priceOrZero (taskMap props) LAIT_TASK_ID
     \<and> primePanier d = joursTravailles_dp d * priceOrZero (taskMap props) PANIER_TASK_ID
     \<and> ((\<forall>l \<in> set (allLogs props). taskId l = LAIT_TASK_ID \<or> taskId l = PANIER_TASK_ID) \<longrightarrow>
          montant d = 0 \<and> total d = 0 \<and> retCnss d = 0 \<and> retAmo d = 0
        \<and> netAPayer d =
            joursTravailles_dp d * (priceOrZero (taskMap props) LAIT_TASK_ID
                                    + priceOrZero (taskMap props) PANIER_TASK_ID)
            - avanceAid d - ir d)"
    if d: "generateReportLine pf props y m per inputs wid = Some d"
  proof -
    note m = generateReportLine_SomeD(2)[OF d] and an = generateReportLine_SomeD(3)[OF d]
      and t = generateReportLine_SomeD(4)[OF d] and il = generateReportLine_SomeD(5)[OF d]
      and pp = generateReportLine_SomeD(6)[OF d] and rc = generateReportLine_SomeD(7)[OF d]
      and ra = generateReportLine_SomeD(8)[OF d] and n = generateReportLine_SomeD(11)[OF d]
    have 1: "montant d = operationalTotal (taskMap props) wid
                     (filter (\<lambda>l. taskId l \<noteq> LAIT_TASK_ID \<and> taskId l \<noteq> PANIER_TASK_ID)
                        (logsInPeriod (allLogs props) y m per))"
      by (simp only: m operationalTotal_drop_indemnity)
    have 2: "montant d = 0 \<and> total d = 0 \<and> retCnss d = 0 \<and> retAmo d = 0
        \<and> netAPayer d =
            joursTravailles_dp d * (priceOrZero (taskMap props) LAIT_TASK_ID
                                    + priceOrZero (taskMap props) PANIER_TASK_ID)
            - avanceAid d - ir d"
      if only: "\<forall>l \<in> set (allLogs props). taskId l = LAIT_TASK_ID \<or> taskId l = PANIER_TASK_ID"
    proof -
      from only have "\<forall>l \<in> set (logsInPeriod (allLogs props) y m per).
                        taskId l = LAIT_TASK_ID \<or> taskId l = PANIER_TASK_ID"
        by (simp add: logsInPeriod_def)
      then have "operationalTotal (taskMap props) wid (logsInPeriod (allLogs props) y m per) = 0"
        by (rule operationalTotal_indemnity_only)
      with m have m0: "montant d = 0" by simp
      with an have a0: "anciennete_dp d = 0" by simp
      with m0 t have t0: "total d = 0" by simp
      with rc ra have r0: "retCnss d = 0" "retAmo d = 0" by simp_all
      from n t0 r0 il pp have "netAPayer d =
            joursTravailles_dp d * (priceOrZero (taskMap props) LAIT_TASK_ID
                                    + priceOrZero (taskMap props) PANIER_TASK_ID)
            - avanceAid d - ir d"
        by (simp add: distrib_left)
      with m0 t0 r0 show ?thesis by simp
    qed
    from 1 il pp 2 show ?thesis by blast
  qed
  have annual: "totalOperation_as a = operationalTotal tm wid
                     (filter (\<lambda>l. taskId l \<noteq> LAIT_TASK_ID \<and> taskId l \<noteq> PANIER_TASK_ID)
                        (aggregatedLogs srcs))
     \<and> indemnites a =
          joursTravailles_as a * (priceOrZero tm LAIT_TASK_ID + priceOrZero tm PANIER_TASK_ID)
     \<and> ((\<forall>l \<in> set (aggregatedLogs srcs). taskId l = LAIT_TASK_ID \<or> taskId l = PANIER_TASK_ID) \<longrightarrow>
          totalOperation_as a = 0 \<and> totalBrut_as a = 0 \<and> retenu_as a = 0
        \<and> netPay a =
            joursTravailles_as a * (priceOrZero tm LAIT_TASK_ID + priceOrZero tm PANIER_TASK_ID))"
    if a: "annualLine tm groups srcs wid = Some a"
  proof -
    note t = annualLine_SomeD(2)[OF a] and an = annualLine_SomeD(3)[OF a]
      and tb = annualLine_SomeD(4)[OF a] and r = annualLine_SomeD(5)[OF a]
      and i = annualLine_SomeD(7)[OF a] and n = annualLine_SomeD(8)[OF a]
    have 1: "totalOperation_as a = operationalTotal tm wid
                     (filter (\<lambda>l. taskId l \<noteq> LAIT_TASK_ID \<and> taskId l \<noteq> PANIER_TASK_ID)
                        (aggregatedLogs srcs))"
      by (simp only: t operationalTotal_drop_indemnity)
    have 2: "totalOperation_as a = 0 \<and> totalBrut_as a = 0 \<and> retenu_as a = 0
        \<and> netPay a =
            joursTravailles_as a * (priceOrZero tm LAIT_TASK_ID + priceOrZero tm PANIER_TASK_ID)"
      if only: "\<forall>l \<in> set (aggregatedLogs srcs). taskId l = LAIT_TASK_ID \<or> taskId l = PANIER_TASK_ID"
    proof -
      from only have "operationalTotal tm wid (aggregatedLogs srcs) = 0"
        by (rule operationalTotal_indemnity_only)
      with t have t0: "totalOperation_as a = 0" by simp
      with an have "anciennete_as a = 0" by simp
      with t0 tb have b0: "totalBrut_as a = 0" by simp
      with r have r0: "retenu_as a = 0" by simp
      from n b0 r0 i t0 show ?thesis by simp
    qed
    from 1 i 2 show ?thesis by blast
  qed
  from detailed annual show ?thesis by blast
qed

lemma indemnity_detailed:
  "generateReportLine parseDecimal indemnityProps 2025 6 First indemnityInputs 1 = Some indemnityLine"
  by (simp add: generateReportLine_def indemnityProps_def indemnityInputs_def scenario_defs
      allWorkers_def getDaysWorkedForWorker_def date_defs LAIT_TASK_ID_def PANIER_TASK_ID_def
      priceOrZero_def RET_CNSS_RATE_def RET_AMO_RATE_def numOrZero_def strOr_def parse_defs
      indemnityLine_def)

text \<open>
  Claim C6 as stated fails in the detailed payroll when an income-tax amount is entered:
  with ten days worked, milk 8, meal basket 12, advance 30 and IR 5 the net pay is 165,
  not \<open>10 \<times> 20 - 30 = 170\<close>.
\<close>

theorem C6_indemnity_exclusion_counterexample:
  "generateReportLine parseDecimal indemnityProps 2025 6 First indemnityInputs 1 = Some indemnityLine
   \<and> list_all (\<lambda>l. taskId l = LAIT_TASK_ID \<or> taskId l = PANIER_TASK_ID) (allLogs indemnityProps)
   \<and> montant indemnityLine = 0
   \<and> netAPayer indemnityLine \<noteq>
       joursTravailles_dp indemnityLine
         * (priceOrZero (taskMap indemnityProps) LAIT_TASK_ID
            + priceOrZero (taskMap indemnityProps) PANIER_TASK_ID)
       - avanceAid indemnityLine"
  by (simp add: indemnity_detailed)
     (simp add: indemnityLine_def indemnityProps_def scenario_defs priceOrZero_def
       LAIT_TASK_ID_def PANIER_TASK_ID_def)

theorem C6_indemnity_exclusion_witness:
  "generateReportLine parseDecimal indemnityProps 2025 6 First indemnityInputs 1 = Some indemnityLine
   \<and> list_all (\<lambda>l. taskId l = LAIT_TASK_ID \<or> taskId l = PANIER_TASK_ID) (allLogs indemnityProps)
   \<and> montant indemnityLine = 0
   \<and> netAPayer indemnityLine = 10 * (8 + 12) - 30 - 5"
proof -
  have only: "\<forall>l \<in> set (allLogs indemnityProps). taskId l = LAIT_TASK_ID \<or> taskId l = PANIER_TASK_ID"
    by (simp add: indemnityProps_def LAIT_TASK_ID_def PANIER_TASK_ID_def)
  from C6_indemnity_exclusion[of parseDecimal indemnityProps 2025 6 First indemnityInputs 1 indemnityLine]
    indemnity_detailed only
  have "montant indemnityLine = 0" by blast
  with indemnity_detailed only show ?thesis
    by (simp add: list_all_iff) (simp add: indemnityLine_def)
qed











lemma fallback_strOr:
  assumes "pf ''0'' = Some 0"
  shows "noAmount pf s \<Longrightarrow> numOrZero (pf (strOr s ''0'')) = 0"
    and "isAmount pf s x \<Longrightarrow> numOrZero (pf (strOr s ''0'')) = x"
  using assms by (auto simp: noAmount_def isAmount_def strOr_def numOrZero_def split: option.splits)

lemma recalcLine_jourFerier:
  "noAmount pf (map_option jourFerier_in (adj (id_w (worker d)))) \<Longrightarrow>
     jourFerier (recalcLine pf adj d) = 0"
  "isAmount pf (map_option jourFerier_in (adj (id_w (worker d)))) x \<Longrightarrow>
     jourFerier (recalcLine pf adj d) = x"
  by (auto simp: recalcLine_def noAmount_def isAmount_def numOrZero_def Let_def split: option.splits)

text \<open>
  Claim C10. Adjustments are strings. When the value of an adjustment is missing, empty or
  not parsable (\<open>parseFloat\<close> gives \<open>NaN\<close>), its amount is exactly 0: the advance and the
  income tax of the detailed payroll, the holiday pay of the payroll recomputation and the
  advance of the payroll view. When it parses to a number \<open>x\<close>, the amount is \<open>x\<close>. In both
  cases \<open>totalBrut\<close>, \<open>retenu\<close> and the net pay are the pipeline's arithmetic on numbers; no
  \<open>NaN\<close> reaches them. The only fact used about \<open>parseFloat\<close> is that it reads \<open>'0'\<close> as 0.
\<close>

theorem C10_adjustment_parse_fallback:
  assumes pf0: "pf ''0'' = Some 0"
  shows "(generateReportLine pf props y m per inputs wid = Some dl \<longrightarrow>
            (noAmount pf (map_option avanceAid_in (inputs wid)) \<longrightarrow> avanceAid dl = 0)
          \<and> (noAmount pf (map_option ir_in (inputs wid)) \<longrightarrow> ir dl = 0)
          \<and> (isAmount pf (map_option avanceAid_in (inputs wid)) x \<longrightarrow> avanceAid dl = x)
          \<and> (isAmount pf (map_option ir_in (inputs wid)) x \<longrightarrow> ir dl = x)
          \<and> netAPayer dl = total dl + indemLait dl + primePanier dl - retCnss dl - retAmo dl
                              - avanceAid dl - ir dl)
       \<and> (noAmount pf (map_option jourFerier_in (adj (id_w (worker d)))) \<longrightarrow>
            jourFerier (recalcLine pf adj d) = 0
          \<and> totalBrut (recalcLine pf adj d) = totalOperation d + anciennete d
          \<and> retenu (recalcLine pf adj d) = (totalOperation d + anciennete d) * 0.0674)
       \<and> (isAmount pf (map_option jourFerier_in (adj (id_w (worker d)))) x \<longrightarrow>
            jourFerier (recalcLine pf adj d) = x
          \<and> totalBrut (recalcLine pf adj d) = totalOperation d + anciennete d + x
          \<and> retenu (recalcLine pf adj d) = (totalOperation d + anciennete d + x) * 0.0674)
       \<and> (noAmount pf (map_option avance_in (additionalInputs_p params (id_w (worker d)))) \<longrightarrow>
            avanceOf pf params d = 0
          \<and> payrollNetAPayer pf tm params d =
              totalBrut d - retenu d + joursTravailles d * priceOrZero tm LAIT_TASK_ID
                + joursTravailles d * priceOrZero tm PANIER_TASK_ID)
       \<and> (isAmount pf (map_option avance_in (additionalInputs_p params (id_w (worker d)))) x \<longrightarrow>
            avanceOf pf params d = x
          \<and> payrollNetAPayer pf tm params d =
              totalBrut d - retenu d + joursTravailles d * priceOrZero tm LAIT_TASK_ID
                + joursTravailles d * priceOrZero tm PANIER_TASK_ID - x)"
proof -
  have detailed: "(noAmount pf (map_option avanceAid_in (inputs wid)) \<longrightarrow> avanceAid dl = 0)
          \<and> (noAmount pf (map_option ir_in (inputs wid)) \<longrightarrow> ir dl = 0)
          \<and> (isAmount pf (map_option avanceAid_in (inputs wid)) x \<longrightarrow> avanceAid dl = x)
          \<and> (isAmount pf (map_option ir_in (inputs wid)) x \<longrightarrow> ir dl = x)
          \<and> netAPayer dl = total dl + indemLait dl + primePanier dl - retCnss dl - retAmo dl
                              - avanceAid dl - ir dl"
    if dl: "generateReportLine pf props y m per inputs wid = Some dl"
    using generateReportLine_SomeD(9,10,11)[OF dl] fallback_strOr[of pf, OF pf0]
    by simp
  have jf0: "jourFerier (recalcLine pf adj d) = 0
          \<and> totalBrut (recalcLine pf adj d) = totalOperation d + anciennete d
          \<and> retenu (recalcLine pf adj d) = (totalOperation d + anciennete d) * 0.0674"
    if "noAmount pf (map_option jourFerier_in (adj (id_w (worker d))))"
    using that recalcLine_jourFerier(1)[of pf adj d] recalcLine_formulas(1,2,3,4)[of pf adj d]
    by simp
  have jfx: "jourFerier (recalcLine pf adj d) = x
          \<and> totalBrut (recalcLine pf adj d) = totalOperation d + anciennete d + x
          \<and> retenu (recalcLine pf adj d) = (totalOperation d + anciennete d + x) * 0.0674"
    if "isAmount pf (map_option jourFerier_in (adj (id_w (worker d)))) x"
    using that recalcLine_jourFerier(2)[of pf adj d x] recalcLine_formulas(1,2,3,4)[of pf adj d]
    by simp
  have av0: "avanceOf pf params d = 0
          \<and> payrollNetAPayer pf tm params d =
              totalBrut d - retenu d + joursTravailles d * priceOrZero tm LAIT_TASK_ID
                + joursTravailles d * priceOrZero tm PANIER_TASK_ID"
    if "noAmount pf (map_option avance_in (additionalInputs_p params (id_w (worker d))))"
    using that fallback_strOr(1)[of pf, OF pf0]
    by (simp add: avanceOf_def payrollNetAPayer_def Let_def)
  have avx: "avanceOf pf params d = x
          \<and> payrollNetAPayer pf tm params d =
              totalBrut d - retenu d + joursTravailles d * priceOrZero tm LAIT_TASK_ID
                + joursTravailles d * priceOrZero tm PANIER_TASK_ID - x"
    if "isAmount pf (map_option avance_in (additionalInputs_p params (id_w (worker d)))) x"
    using that fallback_strOr(2)[of pf, OF pf0]
    by (simp add: avanceOf_def payrollNetAPayer_def Let_def)
  from detailed jf0 jfx av0 avx show ?thesis by blast
qed

lemma bad_detailed_example:
  "generateReportLine parseDecimal scenarioProps 2025 6 First badInputs 1 = Some scenarioDetailedLine"
  by (simp add: generateReportLine_def scenario_defs allWorkers_def getDaysWorkedForWorker_def
      date_defs LAIT_TASK_ID_def PANIER_TASK_ID_def priceOrZero_def RET_CNSS_RATE_def
      RET_AMO_RATE_def numOrZero_def strOr_def parse_defs scenarioDetailedLine_def badInputs_def)

theorem C10_adjustment_parse_fallback_witness:
  "parseDecimal ''0'' = Some 0
   \<and> generateReportLine parseDecimal scenarioProps 2025 6 First badInputs 1 = Some scenarioDetailedLine
   \<and> noAmount parseDecimal (map_option avanceAid_in (badInputs 1))
   \<and> noAmount parseDecimal (map_option ir_in (badInputs 1))
   \<and> avanceAid scenarioDetailedLine = 0 \<and> ir scenarioDetailedLine = 0
   \<and> noAmount parseDecimal (map_option jourFerier_in (badAdjustments (id_w (worker scenarioPayrollLine))))
   \<and> jourFerier (recalcLine parseDecimal badAdjustments scenarioPayrollLine) = 0
   \<and> totalBrut (recalcLine parseDecimal badAdjustments scenarioPayrollLine) = 550
   \<and> isAmount parseDecimal (map_option jourFerier_in (goodAdjustments (id_w (worker scenarioPayrollLine)))) 25.5
   \<and> totalBrut (recalcLine parseDecimal goodAdjustments scenarioPayrollLine) = 575.5
   \<and> noAmount parseDecimal (map_option avance_in (Map.empty (id_w (worker scenarioPayrollLine))))
   \<and> payrollNetAPayer parseDecimal scenarioTaskMap
        \<lparr>startDate_p = ''2025-06-01'', endDate_p = ''2025-06-15'', workerIds_p = [1],
         additionalInputs_p = Map.empty\<rparr> scenarioPayrollLine = 712.93"
proof -
  have p: "parseDecimal ''0'' = Some 0" by (simp add: parse_defs)
  have n1: "noAmount parseDecimal (map_option avanceAid_in (badInputs 1))"
    by (simp add: noAmount_def badInputs_def parse_defs)
  have n2: "noAmount parseDecimal (map_option ir_in (badInputs 1))"
    by (simp add: noAmount_def badInputs_def)
  have n3: "noAmount parseDecimal (map_option jourFerier_in (badAdjustments (id_w (worker scenarioPayrollLine))))"
    by (simp add: noAmount_def badAdjustments_def scenarioPayrollLine_def scenarioWorker_def parse_defs)
  have n4: "isAmount parseDecimal (map_option jourFerier_in (goodAdjustments (id_w (worker scenarioPayrollLine)))) 25.5"
    by (simp add: isAmount_def goodAdjustments_def scenarioPayrollLine_def scenarioWorker_def parse_defs)
  have n5: "noAmount parseDecimal (map_option avance_in (Map.empty (id_w (worker scenarioPayrollLine))))"
    by (simp add: noAmount_def)
  note c = C10_adjustment_parse_fallback[where pf = parseDecimal and props = scenarioProps
      and y = 2025 and m = 6 and per = First and inputs = badInputs and wid = 1
      and dl = scenarioDetailedLine and adj = badAdjustments and d = scenarioPayrollLine
      and params = "\<lparr>startDate_p = ''2025-06-01'', endDate_p = ''2025-06-15'', workerIds_p = [1],
         additionalInputs_p = Map.empty\<rparr>" and tm = scenarioTaskMap, OF p]
  from c bad_detailed_example n1 n2 have a: "avanceAid scenarioDetailedLine = 0 \<and> ir scenarioDetailedLine = 0"
    by blast
  from c n3 have b: "jourFerier (recalcLine parseDecimal badAdjustments scenarioPayrollLine) = 0
     \<and> totalBrut (recalcLine parseDecimal badAdjustments scenarioPayrollLine)
         = totalOperation scenarioPayrollLine + anciennete scenarioPayrollLine"
    by blast
  from c n5 have e: "payrollNetAPayer parseDecimal scenarioTaskMap
        \<lparr>startDate_p = ''2025-06-01'', endDate_p = ''2025-06-15'', workerIds_p = [1],
         additionalInputs_p = Map.empty\<rparr> scenarioPayrollLine =
        totalBrut scenarioPayrollLine - retenu scenarioPayrollLine
          + joursTravailles scenarioPayrollLine * priceOrZero scenarioTaskMap LAIT_TASK_ID
          + joursTravailles scenarioPayrollLine * priceOrZero scenarioTaskMap PANIER_TASK_ID"
    by simp
  from C10_adjustment_parse_fallback[where pf = parseDecimal and x = "25.5"
      and adj = goodAdjustments and d = scenarioPayrollLine, OF p] n4
  have g: "totalBrut (recalcLine parseDecimal goodAdjustments scenarioPayrollLine)
         = totalOperation scenarioPayrollLine + anciennete scenarioPayrollLine + 25.5"
    by blast
  have v: "totalOperation scenarioPayrollLine + anciennete scenarioPayrollLine = 550"
    "totalBrut scenarioPayrollLine - retenu scenarioPayrollLine
          + joursTravailles scenarioPayrollLine * priceOrZero scenarioTaskMap LAIT_TASK_ID
          + joursTravailles scenarioPayrollLine * priceOrZero scenarioTaskMap PANIER_TASK_ID = 712.93"
    by (simp_all add: scenarioPayrollLine_def scenarioTaskMap_def priceOrZero_def
        LAIT_TASK_ID_def PANIER_TASK_ID_def)
  from p bad_detailed_example n1 n2 n3 n4 n5 a b e g v show ?thesis by simp
qed

lemma insort_key_map:
  "map f (insort_key (\<lambda>a. g (f a)) x xs) = insort_key g (f x) (map f xs)"
  by (induction xs) simp_all

lemma map_sort_key:
  "map f (sort_key (\<lambda>a. g (f a)) xs) = sort_key g (map f xs)"
  by (induction xs) (simp_all add: insort_key_map)

lemma map_map_filter:
  "map g (List.map_filter f xs) = List.map_filter (map_option g \<circ> f) xs"
  by (induction xs) (simp_all split: option.splits)

lemma aggregateOf_generateReportLine:
  "map_option aggregateOf (generateReportLine pf props y m per adj1 wid) =
   map_option aggregateOf (generateReportLine pf' props y m per adj2 wid)"
  by (simp add: generateReportLine_def aggregateOf_def Let_def split: option.splits)

lemma aggregateOf_generateReportData:
  "map aggregateOf (generateReportData pf props ids y m per adj1) =
   map aggregateOf (generateReportData pf' props ids y m per adj2)"
proof -
  have "map_option aggregateOf \<circ> generateReportLine pf props y m per adj1 =
        map_option aggregateOf \<circ> generateReportLine pf' props y m per adj2"
    by (rule ext) (simp add: aggregateOf_generateReportLine[of pf props y m per adj1 _ pf' adj2])
  then show ?thesis by (simp add: generateReportData_def map_map_filter)
qed

lemma sort_by_name_aggregateOf:
  "map aggregateOf (sort_key (\<lambda>d. name (worker_dp d)) xs) =
   sort_key (\<lambda>a. name (fst a)) (map aggregateOf xs)"
proof -
  have "(\<lambda>d. name (worker_dp d)) = (\<lambda>d. name (fst (aggregateOf d)))"
    by (rule ext) (simp add: aggregateOf_def)
  then show ?thesis
    using map_sort_key[of aggregateOf "\<lambda>a. name (fst a)" xs] by simp
qed

text \<open>
  The adjustment recomputation of the payroll view takes the stored report and the edited
  adjustments only, and leaves the worker, the tasks, \<open>totalOperation\<close>, \<open>anciennete\<close> and
  \<open>joursTravailles\<close> of every stored line unchanged.
\<close>

lemma payrollSaveAdjustments_frame:
  assumes "payrollSaveAdjustments pf now (Some report) draft = Some report'"
  shows "map worker (data_p report') = map worker (data_p report)
    \<and> map tasks (data_p report') = map tasks (data_p report)
    \<and> map totalOperation (data_p report') = map totalOperation (data_p report)
    \<and> map anciennete (data_p report') = map anciennete (data_p report)
    \<and> map joursTravailles (data_p report') = map joursTravailles (data_p report)
    \<and> additionalInputs_p (params_p report') = draft"
proof -
  from assms have r: "report' = report\<lparr>params_p := (params_p report)\<lparr>additionalInputs_p := draft\<rparr>,
                     data_p := map (recalcLine pf draft) (data_p report),
                     updatedAt_p := now\<rparr>"
    by (simp add: payrollSaveAdjustments_def)
  have "worker \<circ> recalcLine pf draft = worker" "tasks \<circ> recalcLine pf draft = tasks"
    "totalOperation \<circ> recalcLine pf draft = totalOperation"
    "anciennete \<circ> recalcLine pf draft = anciennete"
    "joursTravailles \<circ> recalcLine pf draft = joursTravailles"
    by (rule ext, simp add: recalcLine_def Let_def)+
  then show ?thesis by (simp add: r)
qed

text \<open>
  The adjustment recomputation of the detailed payroll generates the lines again from the
  live props. The aggregation fields it produces do not depend on the adjustments: they
  are the fields a fresh draft over the same props has.
\<close>

lemma detailedSaveAdjustments_regenerates:
  assumes "detailedSaveAdjustments pf props now (Some report) adj = Some saved"
  shows "map aggregateOf (data_dp saved) =
           map aggregateOf (data_dp (detailedGenerateDraft pf' props now'
              (workerIds_dp (params_dp report)) (year_dp (params_dp report))
              (month_dp (params_dp report)) (period_dp (params_dp report))))
     \<and> additionalInputs_dp (params_dp saved) = adj"
proof -
  let ?ids = "workerIds_dp (params_dp report)" and ?y = "year_dp (params_dp report)"
    and ?m = "month_dp (params_dp report)" and ?per = "period_dp (params_dp report)"
  from assms have "data_dp saved =
      sort_key (\<lambda>d. name (worker_dp d)) (generateReportData pf props ?ids ?y ?m ?per adj)"
    and a: "additionalInputs_dp (params_dp saved) = adj"
    by (auto simp: detailedSaveAdjustments_def Let_def)
  then have "map aggregateOf (data_dp saved) =
      sort_key (\<lambda>a. name (fst a)) (map aggregateOf (generateReportData pf props ?ids ?y ?m ?per adj))"
    by (simp only: sort_by_name_aggregateOf)
  also have "\<dots> = sort_key (\<lambda>a. name (fst a))
      (map aggregateOf (generateReportData pf' props ?ids ?y ?m ?per (initialInputs ?ids)))"
    by (simp only: aggregateOf_generateReportData[of pf props ?ids ?y ?m ?per adj pf' "initialInputs ?ids"])
  also have "\<dots> = map aggregateOf (data_dp (detailedGenerateDraft pf' props now' ?ids ?y ?m ?per))"
    by (simp add: detailedGenerateDraft_def Let_def sort_by_name_aggregateOf)
  finally show ?thesis using a by simp
qed

text \<open>
  Claim C3 does not hold of the adjustment recomputation of the detailed payroll. A detailed
  report is generated while the logs hold 100 units of task 1 for worker 1: its stored line
  has \<open>montant = 500\<close>, \<open>anciennete = 50\<close>. One more log of 10 units for the same half-month
  is recorded afterwards, and the adjustments of the stored report are saved unchanged
  (empty). The saved report has \<open>montant = 550\<close>, \<open>anciennete = 55\<close>: the stored values were
  not read. The payroll view, on a stored line with the same figures, keeps
  \<open>totalOperation = 500\<close> and \<open>anciennete = 50\<close> whatever the live logs are.
\<close>

theorem C3_detailed_recomputation_reads_live_logs:
  "map (\<lambda>d. (montant d, anciennete_dp d, joursTravailles_dp d))
     (data_dp (detailedGenerateDraft parseDecimal scenarioProps ''t0'' [1] 2025 6 First))
     = [(500, 50, 10)]
   \<and> map_option (\<lambda>r. map (\<lambda>d. (montant d, anciennete_dp d, joursTravailles_dp d)) (data_dp r))
       (detailedSaveAdjustments parseDecimal laterProps ''t1''
          (Some (detailedGenerateDraft parseDecimal scenarioProps ''t0'' [1] 2025 6 First))
          (initialInputs [1])) = Some [(550, 55, 10)]
   \<and> map_option (\<lambda>r. map (\<lambda>d. (totalOperation d, anciennete d, joursTravailles d)) (data_p r))
       (payrollSaveAdjustments parseDecimal ''t1''
          (Some \<lparr>params_p = \<lparr>startDate_p = ''2025-06-01'', endDate_p = ''2025-06-15'',
                               workerIds_p = [1], additionalInputs_p = Map.empty\<rparr>,
                  data_p = [scenarioPayrollLine], updatedAt_p = ''t0''\<rparr>) Map.empty)
       = Some [(500, 50, 10)]"
  by (simp add: detailedGenerateDraft_def detailedSaveAdjustments_def generateReportData_def
      generateReportLine_def laterProps_def scenario_defs allWorkers_def
      getDaysWorkedForWorker_def date_defs LAIT_TASK_ID_def PANIER_TASK_ID_def priceOrZero_def
      RET_CNSS_RATE_def RET_AMO_RATE_def numOrZero_def strOr_def parse_defs initialInputs_def
      payrollSaveAdjustments_def recalcLine_def scenarioPayrollLine_def)

lemma map_of_addQuantity:
  "map_of (addQuantity l m) t =
     (if taskId l = t then Some (getOrZero m t + quantity l) else map_of m t)"
  by (simp add: addQuantity_def update_conv')

lemma getOrZero_addQuantity:
  "getOrZero (addQuantity l m) t =
     (if taskId l = t then getOrZero m t + quantity l else getOrZero m t)"
  by (simp add: getOrZero_def map_of_addQuantity)

lemma map_of_fold_addQuantity:
  "map_of (fold addQuantity xs m) t =
     (if \<exists>l \<in> set xs. taskId l = t
      then Some (getOrZero m t + sum_list (map quantity (filter (\<lambda>l. taskId l = t) xs)))
      else map_of m t)"
proof (induction xs arbitrary: m)
  case Nil
  then show ?case by simp
next
  case (Cons l xs)
  have "map_of (fold addQuantity (l # xs) m) t = map_of (fold addQuantity xs (addQuantity l m)) t"
    by simp
  also have "\<dots> = (if \<exists>l' \<in> set xs. taskId l' = t
      then Some (getOrZero (addQuantity l m) t
                 + sum_list (map quantity (filter (\<lambda>l. taskId l = t) xs)))
      else map_of (addQuantity l m) t)"
    by (rule Cons.IH)
  also have "\<dots> = (if \<exists>l' \<in> set (l # xs). taskId l' = t
      then Some (getOrZero m t + sum_list (map quantity (filter (\<lambda>l. taskId l = t) (l # xs))))
      else map_of m t)"
    by (auto simp: getOrZero_addQuantity map_of_addQuantity)
  finally show ?case .
qed

lemma sum_list_filter_mset:
  fixes f :: "'a \<Rightarrow> rat"
  assumes "mset xs = mset ys"
  shows "sum_list (map f (filter P xs)) = sum_list (map f (filter P ys))"
proof -
  have "sum_list (map f (filter P zs)) = sum_mset (image_mset f (filter_mset P (mset zs)))" for zs
    by (simp flip: sum_mset_sum_list)
  with assms show ?thesis by simp
qed

lemma map_of_fold_addQuantity_mset:
  assumes "mset xs = mset ys"
  shows "map_of (fold addQuantity xs m) = map_of (fold addQuantity ys m)"
proof (rule ext)
  fix t
  from assms have "set xs = set ys" by (rule mset_eq_setD)
  with sum_list_filter_mset[OF assms, of quantity "\<lambda>l. taskId l = t"]
  show "map_of (fold addQuantity xs m) t = map_of (fold addQuantity ys m) t"
    by (simp add: map_of_fold_addQuantity)
qed

lemma fold_addQuantity_Nil_iff: "fold addQuantity xs [] = [] \<longleftrightarrow> xs = []"
proof -
  have "fold addQuantity xs m \<noteq> []" if "xs \<noteq> []" for m
  proof -
    from that obtain l where "l \<in> set xs" by (cases xs) auto
    then have "map_of (fold addQuantity xs m) (taskId l) \<noteq> None"
      by (auto simp: map_of_fold_addQuantity)
    then show ?thesis by auto
  qed
  then show ?thesis by auto
qed

lemma fold_filter_skip:
  assumes "\<And>x s. \<not> P x \<Longrightarrow> f x s = s"
  shows "fold f (filter P xs) s = fold f xs s"
  by (induction xs arbitrary: s) (simp_all add: assms)

lemma update_as_map:
  assumes "distinct (map fst D)" and "map_of D k = Some e"
  shows "AList.update k v D = map (\<lambda>p. if fst p = k then (k, v) else p) D"
  using assms
proof (induction D)
  case Nil
  then show ?case by simp
next
  case (Cons a D)
  show ?case
  proof (cases "fst a = k")
    case True
    with Cons.prems(1) have "k \<notin> fst ` set D" by auto
    then have "\<forall>p \<in> set D. fst p \<noteq> k" by (auto simp: image_iff)
    then have "map (\<lambda>p. if fst p = k then (k, v) else p) D = D"
      by (intro map_idI) auto
    with True show ?thesis by (cases a) simp
  next
    case False
    with Cons show ?thesis by (cases a) auto
  qed
qed

lemma map_of_distinct_entry:
  assumes "distinct (map fst D)" and "map_of D k = Some e" and "p \<in> set D" and "fst p = k"
  shows "snd p = e"
  using assms by (metis map_of_is_SomeI option.inject prod.collapse)

lemma addSeasonLog_as_map:
  assumes "distinct (map fst D)"
  shows "addSeasonLog wom l D =
           map (\<lambda>p. if fst p = workerId l \<and> owner l = map_of wom (fst p)
                     then (fst p, (snd p)\<lparr>tasks_se := addQuantity l (tasks_se (snd p))\<rparr>)
                     else p) D"
proof (cases "map_of D (workerId l)")
  case None
  then have "\<forall>p \<in> set D. fst p \<noteq> workerId l"
    by (force simp: map_of_eq_None_iff)
  then have "map (\<lambda>p. if fst p = workerId l \<and> owner l = map_of wom (fst p)
                     then (fst p, (snd p)\<lparr>tasks_se := addQuantity l (tasks_se (snd p))\<rparr>)
                     else p) D = D"
    by (intro map_idI) auto
  with None show ?thesis by (simp add: addSeasonLog_def)
next
  case (Some e)
  show ?thesis
  proof (cases "owner l = map_of wom (workerId l)")
    case True
    have "AList.update (workerId l) (e\<lparr>tasks_se := addQuantity l (tasks_se e)\<rparr>) D =
          map (\<lambda>p. if fst p = workerId l then (workerId l, e\<lparr>tasks_se := addQuantity l (tasks_se e)\<rparr>) else p) D"
      by (rule update_as_map[OF assms Some])
    also have "\<dots> = map (\<lambda>p. if fst p = workerId l \<and> owner l = map_of wom (fst p)
                     then (fst p, (snd p)\<lparr>tasks_se := addQuantity l (tasks_se (snd p))\<rparr>)
                     else p) D"
      using True map_of_distinct_entry[OF assms Some]
      by (intro map_cong) auto
    finally show ?thesis using Some True
      by (simp add: addSeasonLog_def addQuantity_def Let_def)
  next
    case False
    then have "map (\<lambda>p. if fst p = workerId l \<and> owner l = map_of wom (fst p)
                     then (fst p, (snd p)\<lparr>tasks_se := addQuantity l (tasks_se (snd p))\<rparr>)
                     else p) D = D"
      by (intro map_idI) auto
    with Some False show ?thesis by (simp add: addSeasonLog_def)
  qed
qed

lemma addSeasonDays_as_map:
  assumes "distinct (map fst D)"
  shows "addSeasonDays wom wd D =
           map (\<lambda>p. if fst p = workerId_wd wd \<and> owner_wd wd = map_of wom (fst p)
                     then (fst p, (snd p)\<lparr>workedDays_se := workedDays_se (snd p) + days wd\<rparr>)
                     else p) D"
proof (cases "map_of D (workerId_wd wd)")
  case None
  then have "\<forall>p \<in> set D. fst p \<noteq> workerId_wd wd"
    by (force simp: map_of_eq_None_iff)
  then have "map (\<lambda>p. if fst p = workerId_wd wd \<and> owner_wd wd = map_of wom (fst p)
                     then (fst p, (snd p)\<lparr>workedDays_se := workedDays_se (snd p) + days wd\<rparr>)
                     else p) D = D"
    by (intro map_idI) auto
  with None show ?thesis by (simp add: addSeasonDays_def)
next
  case (Some e)
  show ?thesis
  proof (cases "owner_wd wd = map_of wom (workerId_wd wd)")
    case True
    have "AList.update (workerId_wd wd) (e\<lparr>workedDays_se := workedDays_se e + days wd\<rparr>) D =
          map (\<lambda>p. if fst p = workerId_wd wd
                    then (workerId_wd wd, e\<lparr>workedDays_se := workedDays_se e + days wd\<rparr>) else p) D"
      by (rule update_as_map[OF assms Some])
    also have "\<dots> = map (\<lambda>p. if fst p = workerId_wd wd \<and> owner_wd wd = map_of wom (fst p)
                     then (fst p, (snd p)\<lparr>workedDays_se := workedDays_se (snd p) + days wd\<rparr>)
                     else p) D"
      using True map_of_distinct_entry[OF assms Some]
      by (intro map_cong) auto
    finally show ?thesis using Some True
      by (simp add: addSeasonDays_def Let_def)
  next
    case False
    then have "map (\<lambda>p. if fst p = workerId_wd wd \<and> owner_wd wd = map_of wom (fst p)
                     then (fst p, (snd p)\<lparr>workedDays_se := workedDays_se (snd p) + days wd\<rparr>)
                     else p) D = D"
      by (intro map_idI) auto
    with Some False show ?thesis by (simp add: addSeasonDays_def)
  qed
qed

lemma fold_addSeasonLog_as_map:
  assumes "distinct (map fst D)"
  shows "fold (addSeasonLog wom) L D =
           map (\<lambda>p. (fst p, (snd p)\<lparr>tasks_se :=
                        fold addQuantity (ownLogs wom (fst p) L) (tasks_se (snd p))\<rparr>)) D"
  using assms
proof (induction L arbitrary: D)
  case Nil
  then show ?case by (simp add: ownLogs_def)
next
  case (Cons l L)
  let ?h = "\<lambda>p. if fst p = workerId l \<and> owner l = map_of wom (fst p)
                     then (fst p, (snd p)\<lparr>tasks_se := addQuantity l (tasks_se (snd p))\<rparr>)
                     else p"
  have step: "addSeasonLog wom l D = map ?h D"
    by (rule addSeasonLog_as_map[OF Cons.prems])
  have e: "map fst (map ?h D) = map fst D" by (induction D) auto
  have d: "distinct (map fst (map ?h D))" unfolding e by (rule Cons.prems)
  have "fold (addSeasonLog wom) (l # L) D = fold (addSeasonLog wom) L (map ?h D)"
    by (simp add: step)
  also have "\<dots> = map (\<lambda>p. (fst p, (snd p)\<lparr>tasks_se :=
                        fold addQuantity (ownLogs wom (fst p) L) (tasks_se (snd p))\<rparr>)) (map ?h D)"
    by (rule Cons.IH[OF d])
  also have "\<dots> = map (\<lambda>p. (fst p, (snd p)\<lparr>tasks_se :=
                        fold addQuantity (ownLogs wom (fst p) (l # L)) (tasks_se (snd p))\<rparr>)) D"
    by (auto simp: ownLogs_def)
  finally show ?case .
qed

lemma fold_addSeasonDays_as_map:
  assumes "distinct (map fst D)"
  shows "fold (addSeasonDays wom) W D =
           map (\<lambda>p. (fst p, (snd p)\<lparr>workedDays_se :=
                        workedDays_se (snd p) + sum_list (map days (ownDays wom (fst p) W))\<rparr>)) D"
  using assms
proof (induction W arbitrary: D)
  case Nil
  then show ?case by (simp add: ownDays_def)
next
  case (Cons wd W)
  let ?h = "\<lambda>p. if fst p = workerId_wd wd \<and> owner_wd wd = map_of wom (fst p)
                     then (fst p, (snd p)\<lparr>workedDays_se := workedDays_se (snd p) + days wd\<rparr>)
                     else p"
  have step: "addSeasonDays wom wd D = map ?h D"
    by (rule addSeasonDays_as_map[OF Cons.prems])
  have e: "map fst (map ?h D) = map fst D" by (induction D) auto
  have d: "distinct (map fst (map ?h D))" unfolding e by (rule Cons.prems)
  have "fold (addSeasonDays wom) (wd # W) D = fold (addSeasonDays wom) W (map ?h D)"
    by (simp add: step)
  also have "\<dots> = map (\<lambda>p. (fst p, (snd p)\<lparr>workedDays_se :=
                        workedDays_se (snd p) + sum_list (map days (ownDays wom (fst p) W))\<rparr>)) (map ?h D)"
    by (rule Cons.IH[OF d])
  also have "\<dots> = map (\<lambda>p. (fst p, (snd p)\<lparr>workedDays_se :=
                        workedDays_se (snd p) + sum_list (map days (ownDays wom (fst p) (wd # W)))\<rparr>)) D"
    by (auto simp: ownDays_def add.assoc)
  finally show ?case .
qed

lemma distinct_fold_update:
  "distinct (map fst acc) \<Longrightarrow>
     distinct (map fst (fold (\<lambda>w data. AList.update (k w) (v w) data) ws acc))"
  by (induction ws arbitrary: acc) (simp_all add: distinct_update)

lemma distinct_initialSeasonData: "distinct (map fst (initialSeasonData groups))"
  unfolding initialSeasonData_def by (rule distinct_fold_update) simp

lemma initialSeasonData_entries:
  "\<forall>p \<in> set (initialSeasonData groups). tasks_se (snd p) = [] \<and> workedDays_se (snd p) = 0"
proof -
  have "\<forall>p \<in> set acc. tasks_se (snd p) = [] \<and> workedDays_se (snd p) = 0 \<Longrightarrow>
        \<forall>p \<in> set (fold (\<lambda>w data. AList.update (id_w w)
                      \<lparr>worker_se = w, tasks_se = [], workedDays_se = 0\<rparr> data) ws acc).
           tasks_se (snd p) = [] \<and> workedDays_se (snd p) = 0" for ws acc
  proof (induction ws arbitrary: acc)
    case Nil
    then show ?case by simp
  next
    case (Cons w ws)
    have "\<forall>p \<in> set (AList.update (id_w w) \<lparr>worker_se = w, tasks_se = [], workedDays_se = 0\<rparr> acc).
            tasks_se (snd p) = [] \<and> workedDays_se (snd p) = 0"
      using Cons.prems set_update_subset[of "id_w w" "\<lparr>worker_se = w, tasks_se = [], workedDays_se = 0\<rparr>" acc]
      by auto
    from Cons.IH[OF this] show ?case by simp
  qed
  from this[of "[]"] show ?thesis by (simp add: initialSeasonData_def)
qed

text \<open>The closed form of the season aggregation.\<close>

lemma seasonData_closed_form:
  "seasonData season groups logs wds =
     map (\<lambda>p. (fst p,
                \<lparr>worker_se = worker_se (snd p),
                 tasks_se = fold addQuantity
                              (ownLogs (workerOwnerMap groups) (fst p) (logsForSeason season logs)) [],
                 workedDays_se = sum_list (map days
                              (ownDays (workerOwnerMap groups) (fst p)
                                 (workedDaysForSeason season wds)))\<rparr>))
       (initialSeasonData groups)"
proof -
  let ?wom = "workerOwnerMap groups"
  let ?D0 = "initialSeasonData groups"
  let ?g = "\<lambda>p. (fst p, (snd p)\<lparr>tasks_se :=
                        fold addQuantity (ownLogs ?wom (fst p) (logsForSeason season logs)) (tasks_se (snd p))\<rparr>)"
  have 1: "fold (addSeasonLog ?wom) (logsForSeason season logs) ?D0 = map ?g ?D0"
    by (rule fold_addSeasonLog_as_map[OF distinct_initialSeasonData])
  have e: "map fst (map ?g ?D0) = map fst ?D0" by (simp add: comp_def)
  have d: "distinct (map fst (map ?g ?D0))" unfolding e by (rule distinct_initialSeasonData)
  have "seasonData season groups logs wds =
        fold (addSeasonDays ?wom) (workedDaysForSeason season wds) (map ?g ?D0)"
    by (simp add: seasonData_def 1)
  also have "\<dots> = map (\<lambda>p. (fst p, (snd p)\<lparr>workedDays_se :=
                        workedDays_se (snd p) + sum_list (map days (ownDays ?wom (fst p)
                             (workedDaysForSeason season wds)))\<rparr>)) (map ?g ?D0)"
    by (rule fold_addSeasonDays_as_map[OF d])
  also have "\<dots> = map (\<lambda>p. (fst p,
                \<lparr>worker_se = worker_se (snd p),
                 tasks_se = fold addQuantity
                              (ownLogs ?wom (fst p) (logsForSeason season logs)) [],
                 workedDays_se = sum_list (map days
                              (ownDays ?wom (fst p) (workedDaysForSeason season wds)))\<rparr>)) ?D0"
    using initialSeasonData_entries[of groups] by (auto simp: comp_def)
  finally show ?thesis .
qed

lemma ownLogs_matching:
  "ownLogs wom k (logsForSeason season (filter (\<lambda>l. owner l = map_of wom (workerId l)) logs)) =
   ownLogs wom k (logsForSeason season logs)"
  unfolding ownLogs_def logsForSeason_def filter_filter
  by (rule filter_cong) auto

lemma ownDays_matching:
  "ownDays wom k (workedDaysForSeason season (filter (\<lambda>d. owner_wd d = map_of wom (workerId_wd d)) wds)) =
   ownDays wom k (workedDaysForSeason season wds)"
  unfolding ownDays_def workedDaysForSeason_def filter_filter
  by (rule filter_cong) auto

lemma seasonData_matching:
  "seasonData season groups
     (filter (\<lambda>l. owner l = map_of (workerOwnerMap groups) (workerId l)) logs)
     (filter (\<lambda>d. owner_wd d = map_of (workerOwnerMap groups) (workerId_wd d)) wds) =
   seasonData season groups logs wds"
  by (simp only: seasonData_closed_form ownLogs_matching ownDays_matching)

lemma logsForReport_owner:
  "logsForReport (map (\<lambda>l. l\<lparr>owner := tag l\<rparr>) lgs) ws y m per =
   map (\<lambda>l. l\<lparr>owner := tag l\<rparr>) (logsForReport lgs ws y m per)"
  by (simp add: logsForReport_def filter_map comp_def)

text \<open>
  The owner filter of the season aggregation: a log or an attendance entry counts for a
  worker only if its owner tag equals the worker's current owner of record (the owner of
  the group that lists the worker). Removing every entry whose tag does not match changes
  neither the aggregated data nor the summary.
\<close>

lemma season_owner_filter:
  "seasonData season groups logs wds =
     seasonData season groups
       (filter (\<lambda>l. owner l = map_of (workerOwnerMap groups) (workerId l)) logs)
       (filter (\<lambda>d. owner_wd d = map_of (workerOwnerMap groups) (workerId_wd d)) wds)
   \<and> summaryData season groups logs wds =
     summaryData season groups
       (filter (\<lambda>l. owner l = map_of (workerOwnerMap groups) (workerId l)) logs)
       (filter (\<lambda>d. owner_wd d = map_of (workerOwnerMap groups) (workerId_wd d)) wds)"
  by (simp only: seasonData_matching summaryData_def simp_thms)

text \<open>
  The logs of a bi-monthly report are selected by date and worker id alone; the owner tag
  of a log plays no part in the selection.
\<close>

lemma logsForReport_ignores_owner:
  "logsForReport (map (\<lambda>l. l\<lparr>owner := tag l\<rparr>) lgs) ws y m per =
     map (\<lambda>l. l\<lparr>owner := tag l\<rparr>) (logsForReport lgs ws y m per)
   \<and> set (logsForReport lgs ws y m per) =
     {l \<in> set lgs. startDateStr y m per \<le> date l \<and> date l \<le> endDateStr y m per
                       \<and> workerId l \<in> id_w ` set ws}"
proof -
  have "set (logsForReport lgs ws y m per) =
     {l \<in> set lgs. startDateStr y m per \<le> date l \<and> date l \<le> endDateStr y m per
                       \<and> workerId l \<in> id_w ` set ws}"
    by (auto simp: logsForReport_def)
  then show ?thesis
    by (simp only: logsForReport_owner simp_thms)
qed

lemmas season_eval_defs = summaryData_def seasonData_def initialSeasonData_def addSeasonLog_def
  addSeasonDays_def logsForSeason_def workedDaysForSeason_def workerOwnerMap_def
  getCurrentSeason_def monthIndex_def year4_def digit_def allWorkers_def getOrZero_def

text \<open>
  Claim C2 does not hold of the bi-monthly aggregation. Worker 1 is listed in a group owned
  by \<open>u1\<close>. The live logs hold, in the first half of June 2025, 100 units of task 1 tagged
  \<open>u1\<close> and 40 units of task 1 tagged \<open>u2\<close>. The season aggregation counts 100 units for
  the worker. The bi-monthly report selects both logs: its aggregation shows 140 units and
  its payroll an operational total of 700 instead of 500.
\<close>

theorem C2_bimonthly_ignores_owner:
  "map_of (workerOwnerMap scenarioGroups) (workerId foreignLog) = Some ''u1''
   \<and> owner foreignLog = Some ''u2''
   \<and> map snd (seasonData (getCurrentSeason 2025 5) scenarioGroups (foreignLog # scenarioLogs)
        scenarioWorkedDays)
       = [\<lparr>worker_se = scenarioWorker, tasks_se = [(1, 100)], workedDays_se = 10\<rparr>]
   \<and> logsForReport (foreignLog # scenarioLogs) [scenarioWorker] 2025 6 First
       = foreignLog # scenarioLogs
   \<and> dataMap (aggregation (logsForReport (foreignLog # scenarioLogs) [scenarioWorker] 2025 6 First))
       = [(1, [(1, 140)])]
   \<and> totalOperation (payrollLine scenarioTaskMap scenarioWorkedDays 2025 6 First
        (logsForReport (foreignLog # scenarioLogs) [scenarioWorker] 2025 6 First) scenarioWorker)
       = 700"
proof -
  have l: "logsForReport (foreignLog # scenarioLogs) [scenarioWorker] 2025 6 First
             = foreignLog # scenarioLogs"
    by (simp add: logsForReport_def foreignLog_def scenario_defs date_defs)
  have s: "map snd (seasonData (getCurrentSeason 2025 5) scenarioGroups (foreignLog # scenarioLogs)
        scenarioWorkedDays)
       = [\<lparr>worker_se = scenarioWorker, tasks_se = [(1, 100)], workedDays_se = 10\<rparr>]"
    by (simp add: season_eval_defs scenario_defs foreignLog_def)
  show ?thesis unfolding l s
    by (simp add: foreignLog_def scenario_defs workerOwnerMap_def aggregation_def
        addToDataMap_def getOrZero_def payrollLine_def addToSummary_def
        getDaysWorkedForWorker_def LAIT_TASK_ID_def PANIER_TASK_ID_def)
qed

lemma sum_list_map_mset:
  fixes f :: "'a \<Rightarrow> rat"
  assumes "mset xs = mset ys"
  shows "sum_list (map f xs) = sum_list (map f ys)"
  using sum_list_filter_mset[OF assms, of f "\<lambda>_. True"] by simp

lemma seasonView_seasonData:
  "map seasonView (map snd (seasonData season groups logs wds)) =
     map (\<lambda>p. (worker_se (snd p),
                map_of (fold addQuantity
                          (ownLogs (workerOwnerMap groups) (fst p) (logsForSeason season logs)) []),
                sum_list (map days (ownDays (workerOwnerMap groups) (fst p)
                                      (workedDaysForSeason season wds)))))
       (initialSeasonData groups)"
  by (simp add: seasonData_closed_form seasonView_def comp_def)

lemma seasonView_seasonData_mset:
  assumes "mset logs' = mset logs" and "mset wds' = mset wds"
  shows "map seasonView (map snd (seasonData season groups logs' wds')) =
         map seasonView (map snd (seasonData season groups logs wds))"
proof -
  have l: "mset (ownLogs wom k (logsForSeason season logs')) =
           mset (ownLogs wom k (logsForSeason season logs))" for wom k
    using assms(1) by (simp add: ownLogs_def logsForSeason_def)
  have w: "mset (ownDays wom k (workedDaysForSeason season wds')) =
           mset (ownDays wom k (workedDaysForSeason season wds))" for wom k
    using assms(2) by (simp add: ownDays_def workedDaysForSeason_def)
  show ?thesis
    unfolding seasonView_seasonData
    by (simp add: map_of_fold_addQuantity_mset[OF l] sum_list_map_mset[OF w])
qed

lemma seasonView_summaryData:
  "map seasonView (summaryData season groups logs wds) =
     sort_key (\<lambda>v. name (fst v))
       (filter (\<lambda>v. fst (snd v) \<noteq> Map.empty \<or> snd (snd v) > 0)
          (map seasonView (map snd (seasonData season groups logs wds))))"
proof -
  have k: "(\<lambda>d. name (worker_se d)) = (\<lambda>d. name (fst (seasonView d)))"
    by (rule ext) (simp add: seasonView_def)
  have p: "(\<lambda>d. tasks_se d \<noteq> [] \<or> workedDays_se d > 0) =
           (\<lambda>v. fst (snd v) \<noteq> Map.empty \<or> snd (snd v) > 0) \<circ> seasonView"
    by (rule ext) (simp add: seasonView_def map_of_eq_empty_iff)
  let ?X = "map snd (seasonData season groups logs wds)"
  let ?P = "\<lambda>v::Worker \<times> (int \<rightharpoonup> rat) \<times> rat. fst (snd v) \<noteq> Map.empty \<or> snd (snd v) > 0"
  have "map seasonView (summaryData season groups logs wds) =
        map seasonView (sort_key (\<lambda>d. name (fst (seasonView d))) (filter (?P \<circ> seasonView) ?X))"
    by (simp only: summaryData_def k p)
  also have "\<dots> = sort_key (\<lambda>v. name (fst v)) (map seasonView (filter (?P \<circ> seasonView) ?X))"
    by (rule map_sort_key)
  also have "\<dots> = sort_key (\<lambda>v. name (fst v)) (filter ?P (map seasonView ?X))"
    by (simp only: filter_map)
  finally show ?thesis .
qed

lemma snd_fold_addToDataMap:
  "snd (fold addToDataMap xs acc) = fold addQuantity xs (snd acc)"
  by (induction xs arbitrary: acc) (simp_all add: addToDataMap_def addQuantity_def Let_def)

lemma fst_addToDataMap:
  "map_of (fst (addToDataMap l acc)) w =
     (if workerId l = w
      then Some (addQuantity l (case map_of (fst acc) w of None \<Rightarrow> [] | Some m \<Rightarrow> m))
      else map_of (fst acc) w)"
  by (simp add: addToDataMap_def addQuantity_def Let_def update_conv')

lemma map_of_fst_fold_addToDataMap:
  "map_of (fst (fold addToDataMap xs acc)) w =
     (if \<exists>l \<in> set xs. workerId l = w
      then Some (fold addQuantity (filter (\<lambda>l. workerId l = w) xs)
                   (case map_of (fst acc) w of None \<Rightarrow> [] | Some m \<Rightarrow> m))
      else map_of (fst acc) w)"
proof (induction xs arbitrary: acc)
  case Nil
  then show ?case by simp
next
  case (Cons l xs)
  have "map_of (fst (fold addToDataMap (l # xs) acc)) w =
        map_of (fst (fold addToDataMap xs (addToDataMap l acc))) w"
    by simp
  also have "\<dots> = (if \<exists>l' \<in> set xs. workerId l' = w
      then Some (fold addQuantity (filter (\<lambda>l. workerId l = w) xs)
                   (case map_of (fst (addToDataMap l acc)) w of None \<Rightarrow> [] | Some m \<Rightarrow> m))
      else map_of (fst (addToDataMap l acc)) w)"
    by (rule Cons.IH)
  also have "\<dots> = (if \<exists>l' \<in> set (l # xs). workerId l' = w
      then Some (fold addQuantity (filter (\<lambda>l. workerId l = w) (l # xs))
                   (case map_of (fst acc) w of None \<Rightarrow> [] | Some m \<Rightarrow> m))
      else map_of (fst acc) w)"
    by (auto simp: fst_addToDataMap)
  finally show ?case .
qed

lemma aggregation_dataMap:
  "map_option map_of (map_of (dataMap (aggregation logs)) w) =
     (if \<exists>l \<in> set logs. workerId l = w
      then Some (map_of (fold addQuantity (filter (\<lambda>l. workerId l = w) logs) []))
      else None)"
proof (cases "logs = []")
  case True
  then show ?thesis by (simp add: aggregation_def)
next
  case False
  then have "dataMap (aggregation logs) = fst (fold addToDataMap logs ([], []))"
    by (simp add: aggregation_def Let_def)
  then show ?thesis by (simp add: map_of_fst_fold_addToDataMap)
qed

lemma aggregation_columnTotals:
  "map_of (columnTotals (aggregation logs)) = map_of (fold addQuantity logs [])"
proof (cases "logs = []")
  case True
  then show ?thesis by (simp add: aggregation_def)
next
  case False
  then have "columnTotals (aggregation logs) = snd (fold addToDataMap logs ([], []))"
    by (simp add: aggregation_def Let_def)
  then show ?thesis by (simp add: snd_fold_addToDataMap)
qed

lemma aggregation_headerTaskIds:
  "sorted (headerTaskIds (aggregation logs))"
  "distinct (headerTaskIds (aggregation logs))"
  "set (headerTaskIds (aggregation logs)) = taskId ` set logs"
proof -
  have h: "headerTaskIds (aggregation logs) = sort (setOrder (map taskId logs))"
    by (cases "logs = []") (simp_all add: aggregation_def Let_def setOrder_def)
  show "sorted (headerTaskIds (aggregation logs))" unfolding h by simp
  show "distinct (headerTaskIds (aggregation logs))" unfolding h by (simp add: setOrder_def)
  show "set (headerTaskIds (aggregation logs)) = taskId ` set logs"
    unfolding h by (simp add: setOrder_def)
qed

lemma aggregation_mset:
  assumes "mset logs' = mset logs"
  shows "headerTaskIds (aggregation logs') = headerTaskIds (aggregation logs)"
    and "map_option map_of (map_of (dataMap (aggregation logs')) w) =
         map_option map_of (map_of (dataMap (aggregation logs)) w)"
    and "map_of (columnTotals (aggregation logs')) = map_of (columnTotals (aggregation logs))"
proof -
  from assms have s: "set logs' = set logs" by (rule mset_eq_setD)
  show "headerTaskIds (aggregation logs') = headerTaskIds (aggregation logs)"
    by (rule sorted_distinct_set_unique) (simp_all only: aggregation_headerTaskIds s)
  have "mset (filter (\<lambda>l. workerId l = w) logs') = mset (filter (\<lambda>l. workerId l = w) logs)"
    using assms by simp
  then have "map_of (fold addQuantity (filter (\<lambda>l. workerId l = w) logs') []) =
             map_of (fold addQuantity (filter (\<lambda>l. workerId l = w) logs) [])"
    by (rule map_of_fold_addQuantity_mset)
  then show "map_option map_of (map_of (dataMap (aggregation logs')) w) =
         map_option map_of (map_of (dataMap (aggregation logs)) w)"
    by (simp only: aggregation_dataMap s)
  show "map_of (columnTotals (aggregation logs')) = map_of (columnTotals (aggregation logs))"
    by (simp only: aggregation_columnTotals map_of_fold_addQuantity_mset[OF assms])
qed

lemma find_as_filter:
  "find P xs = (case filter P xs of [] \<Rightarrow> None | x # _ \<Rightarrow> Some x)"
  by (induction xs) simp_all

lemma filter_key_mset:
  assumes d: "distinct (map key xs)" and m: "mset ys = mset xs"
  shows "filter (\<lambda>x. key x = k) ys = filter (\<lambda>x. key x = k) xs"
proof -
  define fx where "fx = filter (\<lambda>x. key x = k) xs"
  define fy where "fy = filter (\<lambda>x. key x = k) ys"
  from d have dk: "distinct (map key fx)" unfolding fx_def by (rule distinct_map_filter)
  have keys: "\<And>x. x \<in> set fx \<Longrightarrow> key x = k" by (simp add: fx_def)
  from m have me: "mset fy = mset fx" by (simp add: fx_def fy_def)
  have "fy = fx"
  proof (cases fx)
    case Nil
    with me show ?thesis by simp
  next
    case (Cons a r)
    have "r = []"
    proof (cases r)
      case Nil
      then show ?thesis .
    next
      case (Cons b r')
      with \<open>fx = a # r\<close> have "key a = k" "key b = k" by (simp_all add: keys)
      moreover from dk \<open>fx = a # r\<close> Cons have "key a \<noteq> key b" by simp
      ultimately show ?thesis by simp
    qed
    with Cons me show ?thesis by simp
  qed
  then show ?thesis by (simp only: fx_def fy_def)
qed

lemma getDaysWorkedForWorker_mset:
  assumes "distinct (map attendanceKey wds)" and "mset wds' = mset wds"
  shows "getDaysWorkedForWorker wds' y m per w = getDaysWorkedForWorker wds y m per w"
proof -
  have P: "(\<lambda>d. workerId_wd d = w \<and> year_wd d = y \<and> month_wd d = m \<and> period_wd d = per) =
           (\<lambda>d. attendanceKey d = (w, y, m, per))"
    by (rule ext) (auto simp: attendanceKey_def)
  show ?thesis
    unfolding getDaysWorkedForWorker_def P find_as_filter
    by (simp only: filter_key_mset[OF assms])
qed

text \<open>
  Claim C8. Supplying the same logs and the same attendance entries in another order gives
  the same season summary (per worker the same quantity for every task and the same days
  worked, the workers in the same order), the same bi-monthly aggregation (task header,
  quantity per worker and task, column totals), and the same days worked in the bi-monthly
  report. The last uses the data model's invariant that there is at most one attendance
  entry per worker, year, month and half-month. Sums are exact here.
\<close>

theorem C8_order_independence:
  assumes "mset logs' = mset logs" and "mset wds' = mset wds"
  shows "map seasonView (summaryData season groups logs' wds') =
           map seasonView (summaryData season groups logs wds)
     \<and> headerTaskIds (aggregation logs') = headerTaskIds (aggregation logs)
     \<and> map_option map_of (map_of (dataMap (aggregation logs')) w) =
         map_option map_of (map_of (dataMap (aggregation logs)) w)
     \<and> map_of (columnTotals (aggregation logs')) = map_of (columnTotals (aggregation logs))
     \<and> (distinct (map attendanceKey wds) \<longrightarrow>
          getDaysWorkedForWorker wds' y m per w = getDaysWorkedForWorker wds y m per w)"
proof -
  have "map seasonView (summaryData season groups logs' wds') =
           map seasonView (summaryData season groups logs wds)"
    by (simp only: seasonView_summaryData seasonView_seasonData_mset[OF assms])
  with aggregation_mset[OF assms(1)] getDaysWorkedForWorker_mset[OF _ assms(2)]
  show ?thesis by blast
qed

lemmas order_defs = orderLogA_def orderLogB_def orderLogC_def orderDaysA_def orderDaysB_def

theorem C8_order_independence_witness:
  "mset [orderLogB, orderLogC, orderLogA] = mset [orderLogA, orderLogB, orderLogC]
   \<and> mset [orderDaysB, orderDaysA] = mset [orderDaysA, orderDaysB]
   \<and> distinct (map attendanceKey [orderDaysA, orderDaysB])
   \<and> map tasks_se (summaryData (getCurrentSeason 2025 5) scenarioGroups
                      [orderLogA, orderLogB, orderLogC] [orderDaysA, orderDaysB])
       = [[(1, 0.75), (2, 2)]]
   \<and> map tasks_se (summaryData (getCurrentSeason 2025 5) scenarioGroups
                      [orderLogB, orderLogC, orderLogA] [orderDaysB, orderDaysA])
       = [[(2, 2), (1, 0.75)]]
   \<and> map seasonView (summaryData (getCurrentSeason 2025 5) scenarioGroups
                        [orderLogB, orderLogC, orderLogA] [orderDaysB, orderDaysA])
       = map seasonView (summaryData (getCurrentSeason 2025 5) scenarioGroups
                           [orderLogA, orderLogB, orderLogC] [orderDaysA, orderDaysB])
   \<and> map_of (columnTotals (aggregation [orderLogB, orderLogC, orderLogA]))
       = map_of (columnTotals (aggregation [orderLogA, orderLogB, orderLogC]))
   \<and> getDaysWorkedForWorker [orderDaysB, orderDaysA] 2025 6 First 1
       = getDaysWorkedForWorker [orderDaysA, orderDaysB] 2025 6 First 1"
proof -
  have m1: "mset [orderLogB, orderLogC, orderLogA] = mset [orderLogA, orderLogB, orderLogC]"
    by (simp add: add_mset_commute)
  have m2: "mset [orderDaysB, orderDaysA] = mset [orderDaysA, orderDaysB]"
    by (simp add: add_mset_commute)
  have d: "distinct (map attendanceKey [orderDaysA, orderDaysB])"
    by (simp add: attendanceKey_def order_defs)
  have t1: "map tasks_se (summaryData (getCurrentSeason 2025 5) scenarioGroups
                      [orderLogA, orderLogB, orderLogC] [orderDaysA, orderDaysB])
       = [[(1, 0.75), (2, 2)]]"
    by (simp add: season_eval_defs scenario_defs order_defs)
  have t2: "map tasks_se (summaryData (getCurrentSeason 2025 5) scenarioGroups
                      [orderLogB, orderLogC, orderLogA] [orderDaysB, orderDaysA])
       = [[(2, 2), (1, 0.75)]]"
    by (simp add: season_eval_defs scenario_defs order_defs)
  from C8_order_independence[OF m1 m2, of "getCurrentSeason 2025 5" scenarioGroups 1 2025 6 First] d
  have "map seasonView (summaryData (getCurrentSeason 2025 5) scenarioGroups
                        [orderLogB, orderLogC, orderLogA] [orderDaysB, orderDaysA])
       = map seasonView (summaryData (getCurrentSeason 2025 5) scenarioGroups
                           [orderLogA, orderLogB, orderLogC] [orderDaysA, orderDaysB])
   \<and> map_of (columnTotals (aggregation [orderLogB, orderLogC, orderLogA]))
       = map_of (columnTotals (aggregation [orderLogA, orderLogB, orderLogC]))
   \<and> getDaysWorkedForWorker [orderDaysB, orderDaysA] 2025 6 First 1
       = getDaysWorkedForWorker [orderDaysA, orderDaysB] 2025 6 First 1"
    by blast
  with m1 m2 d t1 t2 show ?thesis by blast
qed

end
